theory Spec2Isabelle
  imports Complex_Main
begin

section \<open>Errors and the engine interface\<close>

text \<open>
  The models of \<^verbatim>\<open>models.py\<close> are written against the module \<^verbatim>\<open>nn\<close>, which is not
  part of the source under study. Every operation of \<^verbatim>\<open>nn\<close> that the models call is a
  field of the record \<open>engine\<close>; the type \<open>'n\<close> is the type of nodes. An operation that
  raises returns \<open>Inl\<close>. The exceptions that \<^verbatim>\<open>models.py\<close> itself can raise are reading a
  local variable that was never bound and unpacking a sequence of the wrong length.
\<close>

datatype error = UnboundLocalError | ValueError | AssertionError

definition err_bind :: "error + 'a \<Rightarrow> ('a \<Rightarrow> error + 'b) \<Rightarrow> error + 'b" where
  "err_bind r f = (case r of Inl e \<Rightarrow> Inl e | Inr v \<Rightarrow> f v)"

text \<open>
  \<open>Parameter k r c\<close> is the \<open>k\<close>-th call \<^verbatim>\<open>nn.Parameter(r, c)\<close> of a constructor: the
  call number stands for the random initial contents, which differ from call to call.
  \<open>update p d mult\<close> is \<^verbatim>\<open>p.update(d, mult)\<close> and returns the new contents of \<open>p\<close>.
\<close>

record 'n engine =
  Parameter :: "nat \<Rightarrow> nat \<Rightarrow> nat \<Rightarrow> 'n"
  DotProduct :: "'n \<Rightarrow> 'n \<Rightarrow> error + 'n"
  Linear :: "'n \<Rightarrow> 'n \<Rightarrow> error + 'n"
  AddBias :: "'n \<Rightarrow> 'n \<Rightarrow> error + 'n"
  Add :: "'n \<Rightarrow> 'n \<Rightarrow> error + 'n"
  ReLU :: "'n \<Rightarrow> error + 'n"
  SquareLoss :: "'n \<Rightarrow> 'n \<Rightarrow> error + 'n"
  SoftmaxLoss :: "'n \<Rightarrow> 'n \<Rightarrow> error + 'n"
  gradients :: "'n \<Rightarrow> 'n list \<Rightarrow> error + 'n list"
  as_scalar :: "'n \<Rightarrow> error + real"
  update :: "'n \<Rightarrow> 'n \<Rightarrow> real \<Rightarrow> error + 'n"

text \<open>
  The dataset collaborator. \<open>iterate_once bs\<close> is the finite sequence of batches of one
  pass; \<open>iterate_forever bs i\<close> is the \<open>i\<close>-th batch of the infinite sequence;
  \<open>get_validation_accuracy\<close> reads the accuracy of the model as it is at the call.
\<close>

record ('x, 'y, 'm) dataset =
  iterate_once :: "nat \<Rightarrow> ('x \<times> 'y) list"
  iterate_forever :: "nat \<Rightarrow> nat \<Rightarrow> 'x \<times> 'y"
  get_validation_accuracy :: "'m \<Rightarrow> real"

text \<open>The outcome of one execution of a loop body: \<^verbatim>\<open>break\<close>, or on to the next batch.\<close>

datatype 'a loop_step = Break 'a | Continue 'a

section \<open>The engine on matrices of reals\<close>

text \<open>
  A node is the array it holds: a non-empty list of rows of one positive length.
  Floating-point numbers are taken as reals.
\<close>

type_synonym matrix = "real list list"

definition dims :: "matrix \<Rightarrow> (nat \<times> nat) option" where
  "dims X =
     (case X of
        [] \<Rightarrow> None
      | r # rs \<Rightarrow>
          if r \<noteq> [] \<and> list_all (\<lambda>r'. length r' = length r) rs
          then Some (length X, length r) else None)"

text \<open>Modelled from the spec: \<^verbatim>\<open>nn.Parameter(rows, cols)\<close>, a fresh array of that shape;
  \<open>rnd k i j\<close> is the random entry \<open>(i, j)\<close> of the \<open>k\<close>-th parameter created.\<close>

definition nn_Parameter :: "(nat \<Rightarrow> nat \<Rightarrow> nat \<Rightarrow> real) \<Rightarrow> nat \<Rightarrow> nat \<Rightarrow> nat \<Rightarrow> matrix" where
  "nn_Parameter rnd k r c = map (\<lambda>i. map (\<lambda>j. rnd k i j) [0..<c]) [0..<r]"

text \<open>Modelled from the spec: \<^verbatim>\<open>nn.DotProduct(a, b)\<close>, the inner product of two single
  vectors of matching dimensionality, as a single-element node.\<close>

definition nn_DotProduct :: "matrix \<Rightarrow> matrix \<Rightarrow> error + matrix" where
  "nn_DotProduct a b =
     (case (a, b) of
        ([u], [v]) \<Rightarrow>
          if u \<noteq> [] \<and> length u = length v
          then Inr [[sum_list (map2 (*) u v)]] else Inl AssertionError
      | _ \<Rightarrow> Inl AssertionError)"

text \<open>Modelled from the spec: \<^verbatim>\<open>nn.Linear(batch, weight)\<close>, the matrix product; the inner
  dimensions must match.\<close>

definition vec_mat :: "nat \<Rightarrow> real list \<Rightarrow> matrix \<Rightarrow> real list" where
  "vec_mat c row W = map (\<lambda>j. sum_list (map (\<lambda>k. row ! k * W ! k ! j) [0..<length row])) [0..<c]"

definition nn_Linear :: "matrix \<Rightarrow> matrix \<Rightarrow> error + matrix" where
  "nn_Linear X W =
     (case dims X of
        None \<Rightarrow> Inl AssertionError
      | Some (n, k) \<Rightarrow>
          (case dims W of
             None \<Rightarrow> Inl AssertionError
           | Some (k', c) \<Rightarrow>
               if k = k' then Inr (map (\<lambda>row. vec_mat c row W) X)
               else Inl AssertionError))"

text \<open>Modelled from the spec: \<^verbatim>\<open>nn.AddBias(batch, bias)\<close> adds the one row of the bias to
  every row of the batch.\<close>

definition nn_AddBias :: "matrix \<Rightarrow> matrix \<Rightarrow> error + matrix" where
  "nn_AddBias X b =
     (case dims X of
        None \<Rightarrow> Inl AssertionError
      | Some (n, c) \<Rightarrow>
          (case b of
             [brow] \<Rightarrow>
               if length brow = c then Inr (map (\<lambda>row. map2 (+) row brow) X)
               else Inl AssertionError
           | _ \<Rightarrow> Inl AssertionError))"

text \<open>Modelled from the spec: \<^verbatim>\<open>nn.Add(a, b)\<close>, the elementwise sum of two nodes of one
  shape.\<close>

definition nn_Add :: "matrix \<Rightarrow> matrix \<Rightarrow> error + matrix" where
  "nn_Add X Y =
     (if dims X \<noteq> None \<and> dims X = dims Y then Inr (map2 (map2 (+)) X Y)
      else Inl AssertionError)"

text \<open>Modelled from the spec: \<^verbatim>\<open>nn.ReLU(a)\<close>, \<open>max(0, x)\<close> applied elementwise.\<close>

definition nn_ReLU :: "matrix \<Rightarrow> error + matrix" where
  "nn_ReLU X = (if dims X \<noteq> None then Inr (map (map (max 0)) X) else Inl AssertionError)"

text \<open>Modelled from the spec: \<^verbatim>\<open>nn.as_scalar(node)\<close>, the value of a single-element
  node.\<close>

definition nn_as_scalar :: "matrix \<Rightarrow> error + real" where
  "nn_as_scalar X = (case X of [[v]] \<Rightarrow> Inr v | _ \<Rightarrow> Inl AssertionError)"

text \<open>Modelled from the spec: \<^verbatim>\<open>param.update(direction, multiplier)\<close>, the in-place
  additive update \<open>param += multiplier \<times> direction\<close> on arrays of one shape.\<close>

definition nn_update :: "matrix \<Rightarrow> matrix \<Rightarrow> real \<Rightarrow> error + matrix" where
  "nn_update p d mult =
     (if dims p \<noteq> None \<and> dims p = dims d
      then Inr (map2 (map2 (\<lambda>a g. a + mult * g)) p d)
      else Inl AssertionError)"

text \<open>The two losses and the differentiation itself stay parameters: the models never
  look into them.\<close>

definition nn_engine ::
  "(nat \<Rightarrow> nat \<Rightarrow> nat \<Rightarrow> real) \<Rightarrow> (matrix \<Rightarrow> matrix \<Rightarrow> error + matrix) \<Rightarrow>
   (matrix \<Rightarrow> matrix \<Rightarrow> error + matrix) \<Rightarrow> (matrix \<Rightarrow> matrix list \<Rightarrow> error + matrix list) \<Rightarrow>
   matrix engine" where
  "nn_engine rnd sq sm gr =
     \<lparr>Parameter = nn_Parameter rnd, DotProduct = nn_DotProduct, Linear = nn_Linear,
      AddBias = nn_AddBias, Add = nn_Add, ReLU = nn_ReLU, SquareLoss = sq,
      SoftmaxLoss = sm, gradients = gr, as_scalar = nn_as_scalar, update = nn_update\<rparr>"

section \<open>PerceptronModel\<close>

record 'n PerceptronModel =
  w :: 'n

definition PerceptronModel_init :: "'n engine \<Rightarrow> nat \<Rightarrow> 'n PerceptronModel" where
  "PerceptronModel_init eng dimensions = \<lparr>w = Parameter eng 0 1 dimensions\<rparr>"

definition PerceptronModel_run ::
  "'n engine \<Rightarrow> 'n PerceptronModel \<Rightarrow> 'n \<Rightarrow> error + 'n" where
  "PerceptronModel_run eng self x = DotProduct eng (w self) x"

definition PerceptronModel_get_prediction ::
  "'n engine \<Rightarrow> 'n PerceptronModel \<Rightarrow> 'n \<Rightarrow> error + int" where
  "PerceptronModel_get_prediction eng self x =
     err_bind (PerceptronModel_run eng self x) (\<lambda>score.
     err_bind (as_scalar eng score) (\<lambda>v.
       if v < 0.0 then Inr (- 1) else Inr 1))"

text \<open>
  The \<^verbatim>\<open>for\<close> loop of \<^verbatim>\<open>train\<close>: one pass over \<^verbatim>\<open>dataset.iterate_once(1)\<close>. The state is
  the model and the flag \<^verbatim>\<open>continuing\<close>.
\<close>

fun PerceptronModel_train_pass ::
  "'n engine \<Rightarrow> ('n \<times> 'n) list \<Rightarrow> 'n PerceptronModel \<times> int \<Rightarrow>
   error + ('n PerceptronModel \<times> int)" where
  "PerceptronModel_train_pass eng [] st = Inr st"
| "PerceptronModel_train_pass eng ((x, y) # rest) (self, continuing) =
     err_bind (as_scalar eng y) (\<lambda>temp.
     err_bind (PerceptronModel_get_prediction eng self x) (\<lambda>p.
       if real_of_int p \<noteq> temp
       then err_bind (update eng (w self) x temp) (\<lambda>w'.
              PerceptronModel_train_pass eng rest (self\<lparr>w := w'\<rparr>, - 1))
       else PerceptronModel_train_pass eng rest (self, continuing)))"

text \<open>The \<^verbatim>\<open>while 1\<close> loop: \<open>None\<close> is a run that never leaves it.\<close>

partial_function (option) PerceptronModel_train ::
  "'n engine \<Rightarrow> ('n, 'n, 'n PerceptronModel) dataset \<Rightarrow> 'n PerceptronModel \<Rightarrow>
   (error + 'n PerceptronModel) option" where
  "PerceptronModel_train eng dataset self =
     (case PerceptronModel_train_pass eng (iterate_once dataset 1) (self, 1) of
        Inl e \<Rightarrow> Some (Inl e)
      | Inr (self', continuing) \<Rightarrow>
          if continuing > 0 then Some (Inr self')
          else PerceptronModel_train eng dataset self')"

section \<open>RegressionModel\<close>

record 'n RegressionModel =
  learning_rate :: real
  batch_size :: nat
  hidden_layer :: nat
  w1 :: 'n
  b1 :: 'n
  w2 :: 'n
  b2 :: 'n

definition RegressionModel_init :: "'n engine \<Rightarrow> 'n RegressionModel" where
  "RegressionModel_init eng =
     (let hidden = 50 in
      \<lparr>learning_rate = - 0.005, batch_size = 200, hidden_layer = hidden,
       w1 = Parameter eng 0 1 hidden, b1 = Parameter eng 1 1 hidden,
       w2 = Parameter eng 2 hidden 1, b2 = Parameter eng 3 1 1\<rparr>)"

definition RegressionModel_run ::
  "'n engine \<Rightarrow> 'n RegressionModel \<Rightarrow> 'n \<Rightarrow> error + 'n" where
  "RegressionModel_run eng self x =
     err_bind (Linear eng x (w1 self)) (\<lambda>dot.
     err_bind (AddBias eng dot (b1 self)) (\<lambda>pre.
     err_bind (ReLU eng pre) (\<lambda>bias_added.
     err_bind (Linear eng bias_added (w2 self)) (\<lambda>dot2.
     err_bind (AddBias eng dot2 (b2 self)) (\<lambda>bias_added2.
       Inr bias_added2)))))"

definition RegressionModel_get_loss ::
  "'n engine \<Rightarrow> 'n RegressionModel \<Rightarrow> 'n \<Rightarrow> 'n \<Rightarrow> error + 'n" where
  "RegressionModel_get_loss eng self x y =
     err_bind (RegressionModel_run eng self x) (\<lambda>pred. SquareLoss eng pred y)"

text \<open>The body of the \<^verbatim>\<open>for\<close> loop of \<^verbatim>\<open>train\<close> on the batch \<open>(x, y)\<close>.\<close>

definition RegressionModel_train_body ::
  "'n engine \<Rightarrow> 'n RegressionModel \<Rightarrow> 'n \<times> 'n \<Rightarrow> error + 'n RegressionModel loop_step" where
  "RegressionModel_train_body eng self batch =
     (case batch of (x, y) \<Rightarrow>
     err_bind (RegressionModel_get_loss eng self x y) (\<lambda>loss.
     err_bind (as_scalar eng loss) (\<lambda>v.
       if v < 0.02 then Inr (Break self)
       else
         err_bind (RegressionModel_get_loss eng self x y) (\<lambda>temp.
         err_bind (gradients eng temp [w1 self, w2 self, b1 self, b2 self]) (\<lambda>grads.
           (case grads of
              [grad_w1, grad_w2, grad_b1, grad_b2] \<Rightarrow>
                err_bind (update eng (w1 self) grad_w1 (learning_rate self)) (\<lambda>w1'.
                err_bind (update eng (w2 self) grad_w2 (learning_rate self)) (\<lambda>w2'.
                err_bind (update eng (b1 self) grad_b1 (learning_rate self)) (\<lambda>b1'.
                err_bind (update eng (b2 self) grad_b2 (learning_rate self)) (\<lambda>b2'.
                  Inr (Continue (self\<lparr>w1 := w1', w2 := w2', b1 := b1', b2 := b2'\<rparr>))))))
            | _ \<Rightarrow> Inl ValueError))))))"

text \<open>The loop over the infinite sequence \<open>batches\<close>, at its \<open>i\<close>-th batch.\<close>

partial_function (option) RegressionModel_train_loop ::
  "'n engine \<Rightarrow> (nat \<Rightarrow> 'n \<times> 'n) \<Rightarrow> 'n RegressionModel \<Rightarrow> nat \<Rightarrow>
   (error + 'n RegressionModel) option" where
  "RegressionModel_train_loop eng batches self i =
     (case RegressionModel_train_body eng self (batches i) of
        Inl e \<Rightarrow> Some (Inl e)
      | Inr (Break self') \<Rightarrow> Some (Inr self')
      | Inr (Continue self') \<Rightarrow> RegressionModel_train_loop eng batches self' (Suc i))"

definition RegressionModel_train ::
  "'n engine \<Rightarrow> ('n, 'n, 'n RegressionModel) dataset \<Rightarrow> 'n RegressionModel \<Rightarrow>
   (error + 'n RegressionModel) option" where
  "RegressionModel_train eng dataset self =
     RegressionModel_train_loop eng (iterate_forever dataset (batch_size self)) self 0"

section \<open>DigitClassificationModel\<close>

record 'n DigitClassificationModel =
  learning_rate :: real
  batch_size :: nat
  hidden_layer :: nat
  w1 :: 'n
  b1 :: 'n
  w2 :: 'n
  b2 :: 'n

definition DigitClassificationModel_init :: "'n engine \<Rightarrow> 'n DigitClassificationModel" where
  "DigitClassificationModel_init eng =
     (let hidden = 100 in
      \<lparr>learning_rate = - 0.05, batch_size = 20, hidden_layer = hidden,
       w1 = Parameter eng 0 784 hidden, b1 = Parameter eng 1 1 hidden,
       w2 = Parameter eng 2 hidden 10, b2 = Parameter eng 3 1 10\<rparr>)"

definition DigitClassificationModel_run ::
  "'n engine \<Rightarrow> 'n DigitClassificationModel \<Rightarrow> 'n \<Rightarrow> error + 'n" where
  "DigitClassificationModel_run eng self x =
     err_bind (Linear eng x (DigitClassificationModel.w1 self)) (\<lambda>dot.
     err_bind (AddBias eng dot (DigitClassificationModel.b1 self)) (\<lambda>pre.
     err_bind (ReLU eng pre) (\<lambda>bias_added.
     err_bind (Linear eng bias_added (DigitClassificationModel.w2 self)) (\<lambda>dot2.
     err_bind (AddBias eng dot2 (DigitClassificationModel.b2 self)) (\<lambda>bias_added2.
       Inr bias_added2)))))"

definition DigitClassificationModel_get_loss ::
  "'n engine \<Rightarrow> 'n DigitClassificationModel \<Rightarrow> 'n \<Rightarrow> 'n \<Rightarrow> error + 'n" where
  "DigitClassificationModel_get_loss eng self x y =
     err_bind (DigitClassificationModel_run eng self x) (\<lambda>logits. SoftmaxLoss eng logits y)"

text \<open>
  The state of a training run that reads the validation accuracy: the model, what was
  printed, and every value that \<^verbatim>\<open>dataset.get_validation_accuracy()\<close> has returned, the
  most recent last.
\<close>

record 'm training =
  model :: 'm
  printed :: "real list"
  queried :: "real list"

text \<open>The body of the \<^verbatim>\<open>for\<close> loop of \<^verbatim>\<open>train\<close>: the accuracy is read twice, once for
  \<^verbatim>\<open>print\<close> and once for the test.\<close>

definition DigitClassificationModel_train_body ::
  "'n engine \<Rightarrow> ('n, 'n, 'n DigitClassificationModel) dataset \<Rightarrow>
   'n DigitClassificationModel training \<Rightarrow> 'n \<times> 'n \<Rightarrow>
   error + 'n DigitClassificationModel training loop_step" where
  "DigitClassificationModel_train_body eng dataset st batch =
     (case batch of (x, y) \<Rightarrow>
      let self = model st;
          shown = get_validation_accuracy dataset self;
          st1 = st\<lparr>printed := printed st @ [shown], queried := queried st @ [shown]\<rparr>;
          acc = get_validation_accuracy dataset self;
          st2 = st1\<lparr>queried := queried st1 @ [acc]\<rparr>
      in
        if acc \<ge> 0.978 then Inr (Break st2)
        else
          err_bind (DigitClassificationModel_get_loss eng self x y) (\<lambda>temp.
          err_bind (gradients eng temp
                      [DigitClassificationModel.w1 self, DigitClassificationModel.w2 self,
                       DigitClassificationModel.b1 self, DigitClassificationModel.b2 self])
            (\<lambda>grads.
            (case grads of
               [grad_w1, grad_w2, grad_b1, grad_b2] \<Rightarrow>
                 err_bind (update eng (DigitClassificationModel.w1 self) grad_w1
                             (DigitClassificationModel.learning_rate self)) (\<lambda>w1'.
                 err_bind (update eng (DigitClassificationModel.w2 self) grad_w2
                             (DigitClassificationModel.learning_rate self)) (\<lambda>w2'.
                 err_bind (update eng (DigitClassificationModel.b1 self) grad_b1
                             (DigitClassificationModel.learning_rate self)) (\<lambda>b1'.
                 err_bind (update eng (DigitClassificationModel.b2 self) grad_b2
                             (DigitClassificationModel.learning_rate self)) (\<lambda>b2'.
                   Inr (Continue (st2\<lparr>model :=
                     self\<lparr>DigitClassificationModel.w1 := w1',
                          DigitClassificationModel.w2 := w2',
                          DigitClassificationModel.b1 := b1',
                          DigitClassificationModel.b2 := b2'\<rparr>\<rparr>))))))
             | _ \<Rightarrow> Inl ValueError))))"

partial_function (option) DigitClassificationModel_train_loop ::
  "'n engine \<Rightarrow> ('n, 'n, 'n DigitClassificationModel) dataset \<Rightarrow> (nat \<Rightarrow> 'n \<times> 'n) \<Rightarrow>
   'n DigitClassificationModel training \<Rightarrow> nat \<Rightarrow>
   (error + 'n DigitClassificationModel training) option" where
  "DigitClassificationModel_train_loop eng dataset batches st i =
     (case DigitClassificationModel_train_body eng dataset st (batches i) of
        Inl e \<Rightarrow> Some (Inl e)
      | Inr (Break st') \<Rightarrow> Some (Inr st')
      | Inr (Continue st') \<Rightarrow>
          DigitClassificationModel_train_loop eng dataset batches st' (Suc i))"

definition DigitClassificationModel_train ::
  "'n engine \<Rightarrow> ('n, 'n, 'n DigitClassificationModel) dataset \<Rightarrow>
   'n DigitClassificationModel \<Rightarrow> (error + 'n DigitClassificationModel training) option" where
  "DigitClassificationModel_train eng dataset self =
     DigitClassificationModel_train_loop eng dataset
       (iterate_forever dataset (DigitClassificationModel.batch_size self))
       \<lparr>model = self, printed = [], queried = []\<rparr> 0"

section \<open>LanguageIDModel\<close>

record 'n LanguageIDModel =
  num_chars :: nat
  languages :: "string list"
  learning_rate :: real
  batch_size :: nat
  hidden_layer :: nat
  w1 :: 'n
  b1 :: 'n
  w2 :: 'n
  b2 :: 'n
  w3 :: 'n
  b3 :: 'n
  W_hidden :: 'n
  W_hidden2 :: 'n

definition LanguageIDModel_init :: "'n engine \<Rightarrow> 'n LanguageIDModel" where
  "LanguageIDModel_init eng =
     (let hidden = 250 in
      \<lparr>num_chars = 47,
       languages = [''English'', ''Spanish'', ''Finnish'', ''Dutch'', ''Polish''],
       learning_rate = - 0.05, batch_size = 40, hidden_layer = hidden,
       w1 = Parameter eng 0 hidden hidden, b1 = Parameter eng 1 1 hidden,
       w2 = Parameter eng 2 hidden hidden, b2 = Parameter eng 3 1 250,
       w3 = Parameter eng 4 hidden 5, b3 = Parameter eng 5 1 5,
       W_hidden = Parameter eng 6 47 hidden, W_hidden2 = Parameter eng 7 hidden hidden\<rparr>)"

text \<open>
  The \<^verbatim>\<open>for elem in xs\<close> loop of \<^verbatim>\<open>run\<close>. Its state is the flag \<^verbatim>\<open>first\<close> and the local
  variable \<^verbatim>\<open>x\<close>, which is \<open>None\<close> as long as no assignment has bound it.
\<close>

fun LanguageIDModel_run_loop ::
  "'n engine \<Rightarrow> 'n LanguageIDModel \<Rightarrow> 'n list \<Rightarrow> int \<times> 'n option \<Rightarrow>
   error + (int \<times> 'n option)" where
  "LanguageIDModel_run_loop eng self [] st = Inr st"
| "LanguageIDModel_run_loop eng self (elem # rest) (first, x) =
     (if first = 1 then
        err_bind (Linear eng elem (W_hidden self)) (\<lambda>lin.
        err_bind (ReLU eng lin) (\<lambda>x'.
          LanguageIDModel_run_loop eng self rest (0, Some x')))
      else
        err_bind (Linear eng elem (W_hidden self)) (\<lambda>lin.
          (case x of
             None \<Rightarrow> Inl UnboundLocalError
           | Some h \<Rightarrow>
               err_bind (Linear eng h (W_hidden2 self)) (\<lambda>rec.
               err_bind (Add eng lin rec) (\<lambda>x'.
                 LanguageIDModel_run_loop eng self rest (first, Some x'))))))"

text \<open>The three dense layers that follow the loop.\<close>

definition LanguageIDModel_run_dense ::
  "'n engine \<Rightarrow> 'n LanguageIDModel \<Rightarrow> 'n \<Rightarrow> error + 'n" where
  "LanguageIDModel_run_dense eng self x =
     err_bind (Linear eng x (LanguageIDModel.w1 self)) (\<lambda>dot.
     err_bind (AddBias eng dot (LanguageIDModel.b1 self)) (\<lambda>pre.
     err_bind (ReLU eng pre) (\<lambda>bias_added.
     err_bind (Linear eng bias_added (LanguageIDModel.w2 self)) (\<lambda>dot2.
     err_bind (AddBias eng dot2 (LanguageIDModel.b2 self)) (\<lambda>pre2.
     err_bind (ReLU eng pre2) (\<lambda>bias_added2.
     err_bind (Linear eng bias_added2 (w3 self)) (\<lambda>dot3.
     err_bind (AddBias eng dot3 (b3 self)) (\<lambda>bias_added3.
       Inr bias_added3))))))))"

definition LanguageIDModel_run ::
  "'n engine \<Rightarrow> 'n LanguageIDModel \<Rightarrow> 'n list \<Rightarrow> error + 'n" where
  "LanguageIDModel_run eng self xs =
     err_bind (LanguageIDModel_run_loop eng self xs (1, None)) (\<lambda>st.
       (case snd st of
          None \<Rightarrow> Inl UnboundLocalError
        | Some x \<Rightarrow> LanguageIDModel_run_dense eng self x))"

text \<open>The hidden state: the value of \<^verbatim>\<open>x\<close> that the dense layers read after the loop.\<close>

definition LanguageIDModel_hidden ::
  "'n engine \<Rightarrow> 'n LanguageIDModel \<Rightarrow> 'n list \<Rightarrow> error + 'n" where
  "LanguageIDModel_hidden eng self xs =
     err_bind (LanguageIDModel_run_loop eng self xs (1, None)) (\<lambda>st.
       (case snd st of None \<Rightarrow> Inl UnboundLocalError | Some x \<Rightarrow> Inr x))"

definition LanguageIDModel_get_loss ::
  "'n engine \<Rightarrow> 'n LanguageIDModel \<Rightarrow> 'n list \<Rightarrow> 'n \<Rightarrow> error + 'n" where
  "LanguageIDModel_get_loss eng self xs y =
     err_bind (LanguageIDModel_run eng self xs) (\<lambda>logits. SoftmaxLoss eng logits y)"

definition LanguageIDModel_train_body ::
  "'n engine \<Rightarrow> ('n list, 'n, 'n LanguageIDModel) dataset \<Rightarrow>
   'n LanguageIDModel training \<Rightarrow> 'n list \<times> 'n \<Rightarrow>
   error + 'n LanguageIDModel training loop_step" where
  "LanguageIDModel_train_body eng dataset st batch =
     (case batch of (x, y) \<Rightarrow>
      let self = model st;
          acc = get_validation_accuracy dataset self;
          st1 = st\<lparr>queried := queried st @ [acc]\<rparr>
      in
        if acc \<ge> 0.86 then Inr (Break st1)
        else
          err_bind (LanguageIDModel_get_loss eng self x y) (\<lambda>temp.
          err_bind (gradients eng temp
                      [LanguageIDModel.w1 self, LanguageIDModel.w2 self, w3 self,
                       LanguageIDModel.b1 self, LanguageIDModel.b2 self, b3 self])
            (\<lambda>grads.
            (case grads of
               [grad_w1, grad_w2, grad_w3, grad_b1, grad_b2, grad_b3] \<Rightarrow>
                 err_bind (update eng (LanguageIDModel.w1 self) grad_w1
                             (LanguageIDModel.learning_rate self)) (\<lambda>w1'.
                 err_bind (update eng (LanguageIDModel.w2 self) grad_w2
                             (LanguageIDModel.learning_rate self)) (\<lambda>w2'.
                 err_bind (update eng (w3 self) grad_w3
                             (LanguageIDModel.learning_rate self)) (\<lambda>w3'.
                 err_bind (update eng (LanguageIDModel.b1 self) grad_b1
                             (LanguageIDModel.learning_rate self)) (\<lambda>b1'.
                 err_bind (update eng (LanguageIDModel.b2 self) grad_b2
                             (LanguageIDModel.learning_rate self)) (\<lambda>b2'.
                 err_bind (update eng (b3 self) grad_b3
                             (LanguageIDModel.learning_rate self)) (\<lambda>b3'.
                   Inr (Continue (st1\<lparr>model :=
                     self\<lparr>LanguageIDModel.w1 := w1', LanguageIDModel.w2 := w2',
                          w3 := w3', LanguageIDModel.b1 := b1',
                          LanguageIDModel.b2 := b2', b3 := b3'\<rparr>\<rparr>))))))))
             | _ \<Rightarrow> Inl ValueError))))"

partial_function (option) LanguageIDModel_train_loop ::
  "'n engine \<Rightarrow> ('n list, 'n, 'n LanguageIDModel) dataset \<Rightarrow> (nat \<Rightarrow> 'n list \<times> 'n) \<Rightarrow>
   'n LanguageIDModel training \<Rightarrow> nat \<Rightarrow> (error + 'n LanguageIDModel training) option" where
  "LanguageIDModel_train_loop eng dataset batches st i =
     (case LanguageIDModel_train_body eng dataset st (batches i) of
        Inl e \<Rightarrow> Some (Inl e)
      | Inr (Break st') \<Rightarrow> Some (Inr st')
      | Inr (Continue st') \<Rightarrow> LanguageIDModel_train_loop eng dataset batches st' (Suc i))"

definition LanguageIDModel_train ::
  "'n engine \<Rightarrow> ('n list, 'n, 'n LanguageIDModel) dataset \<Rightarrow> 'n LanguageIDModel \<Rightarrow>
   (error + 'n LanguageIDModel training) option" where
  "LanguageIDModel_train eng dataset self =
     LanguageIDModel_train_loop eng dataset
       (iterate_forever dataset (LanguageIDModel.batch_size self))
       \<lparr>model = self, printed = [], queried = []\<rparr> 0"

section \<open>Sample engines and inputs\<close>

text \<open>The engine on matrices with all-zero initial parameters; its losses and gradients
  are placeholders.\<close>

definition zero_nn :: "matrix engine" where
  "zero_nn = nn_engine (\<lambda>k i j. 0) (\<lambda>p y. Inr [[0]]) (\<lambda>p y. Inr [[0]]) (\<lambda>loss ps. Inr ps)"

text \<open>A one-point dataset for the perceptron: the point \<open>1\<close> with label \<open>-1\<close>.\<close>

definition sample_points :: "(matrix, matrix, matrix PerceptronModel) dataset" where
  "sample_points =
     \<lparr>iterate_once = (\<lambda>bs. [([[1]], [[- 1]])]),
      iterate_forever = (\<lambda>bs i. ([[1]], [[- 1]])),
      get_validation_accuracy = (\<lambda>m. 0)\<rparr>"

text \<open>An engine whose nodes are single numbers; every gradient it reports is \<open>-200\<close>.\<close>

definition scalar_engine :: "real engine" where
  "scalar_engine =
     \<lparr>Parameter = (\<lambda>k r c. 0), DotProduct = (\<lambda>a b. Inr (a * b)),
      Linear = (\<lambda>a b. Inr (a * b)), AddBias = (\<lambda>a b. Inr (a + b)),
      Add = (\<lambda>a b. Inr (a + b)), ReLU = (\<lambda>a. Inr (max 0 a)),
      SquareLoss = (\<lambda>a b. Inr ((a - b) * (a - b) / 2)),
      SoftmaxLoss = (\<lambda>a b. Inr ((a - b) * (a - b) / 2)),
      gradients = (\<lambda>loss ps. Inr (map (\<lambda>p. - 200) ps)),
      as_scalar = (\<lambda>a. Inr a), update = (\<lambda>p d mult. Inr (p + mult * d))\<rparr>"

text \<open>The regression batches: always the input \<open>1\<close> with target \<open>3\<close>.\<close>

definition sample_batches :: "(real, real, real RegressionModel) dataset" where
  "sample_batches =
     \<lparr>iterate_once = (\<lambda>bs. []), iterate_forever = (\<lambda>bs i. (1, 3)),
      get_validation_accuracy = (\<lambda>m. 0)\<rparr>"

definition trained :: "real RegressionModel" where
  "trained = (RegressionModel_init scalar_engine)
     \<lparr>RegressionModel.w1 := 1, RegressionModel.w2 := 1,
      RegressionModel.b1 := 1, RegressionModel.b2 := 1\<rparr>"

text \<open>An engine whose nodes count the updates they have received: a fresh parameter is
  \<open>0\<close>, every \<^verbatim>\<open>update\<close> adds one, and every other node is \<open>0\<close>.\<close>

definition count_engine :: "nat engine" where
  "count_engine =
     \<lparr>Parameter = (\<lambda>k r c. 0), DotProduct = (\<lambda>a b. Inr 0),
      Linear = (\<lambda>a b. Inr 0), AddBias = (\<lambda>a b. Inr 0),
      Add = (\<lambda>a b. Inr 0), ReLU = (\<lambda>a. Inr 0),
      SquareLoss = (\<lambda>a b. Inr 0), SoftmaxLoss = (\<lambda>a b. Inr 0),
      gradients = (\<lambda>loss ps. Inr (map (\<lambda>p. 0) ps)),
      as_scalar = (\<lambda>a. Inr (real a)), update = (\<lambda>p d mult. Inr (Suc p))\<rparr>"

text \<open>Datasets whose validation accuracy is \<open>0\<close> until \<open>w1\<close> has been updated and \<open>1\<close>
  afterwards.\<close>

definition sample_digits :: "(nat, nat, nat DigitClassificationModel) dataset" where
  "sample_digits =
     \<lparr>iterate_once = (\<lambda>bs. []), iterate_forever = (\<lambda>bs i. (0, 0)),
      get_validation_accuracy =
        (\<lambda>m. if DigitClassificationModel.w1 m = 0 then 0 else 1)\<rparr>"

definition sample_words :: "(nat list, nat, nat LanguageIDModel) dataset" where
  "sample_words =
     \<lparr>iterate_once = (\<lambda>bs. []), iterate_forever = (\<lambda>bs i. ([0], 0)),
      get_validation_accuracy = (\<lambda>m. if LanguageIDModel.w1 m = 0 then 0 else 1)\<rparr>"

definition digits_start :: "nat DigitClassificationModel" where
  "digits_start = DigitClassificationModel_init count_engine"

definition digits_trained :: "nat DigitClassificationModel" where
  "digits_trained = digits_start
     \<lparr>DigitClassificationModel.w1 := 1, DigitClassificationModel.w2 := 1,
      DigitClassificationModel.b1 := 1, DigitClassificationModel.b2 := 1\<rparr>"

definition words_start :: "nat LanguageIDModel" where
  "words_start = LanguageIDModel_init count_engine"

text \<open>
  The recurrence of the hidden state as the specification words it, for comparison with
  \<open>LanguageIDModel_hidden\<close>: \<open>ReLU(Linear(x_0, W_hidden))\<close> for the first character and
  \<open>ReLU(Linear(x_t, W_hidden) + Linear(h, W_hidden2))\<close> for each later one.
\<close>

fun LanguageIDModel_hidden_spec_from ::
  "'n engine \<Rightarrow> 'n LanguageIDModel \<Rightarrow> 'n \<Rightarrow> 'n list \<Rightarrow> error + 'n" where
  "LanguageIDModel_hidden_spec_from eng self h [] = Inr h"
| "LanguageIDModel_hidden_spec_from eng self h (x # rest) =
     err_bind (Linear eng x (W_hidden self)) (\<lambda>lin.
     err_bind (Linear eng h (W_hidden2 self)) (\<lambda>rec.
     err_bind (Add eng lin rec) (\<lambda>s.
     err_bind (ReLU eng s) (\<lambda>h'.
       LanguageIDModel_hidden_spec_from eng self h' rest))))"

definition LanguageIDModel_hidden_spec ::
  "'n engine \<Rightarrow> 'n LanguageIDModel \<Rightarrow> 'n list \<Rightarrow> error + 'n" where
  "LanguageIDModel_hidden_spec eng self xs =
     (case xs of
        [] \<Rightarrow> Inl UnboundLocalError
      | x0 # rest \<Rightarrow>
          err_bind (Linear eng x0 (W_hidden self)) (\<lambda>lin.
          err_bind (ReLU eng lin) (\<lambda>h.
            LanguageIDModel_hidden_spec_from eng self h rest)))"

text \<open>The engine on matrices whose seventh parameter (\<open>W_hidden\<close> of a fresh
  \<open>LanguageIDModel\<close>) is \<open>-1\<close> everywhere, all other parameters \<open>0\<close>.\<close>

definition negative_nn :: "matrix engine" where
  "negative_nn =
     nn_engine (\<lambda>k i j. if k = 6 then - 1 else 0)
       (\<lambda>p y. Inr [[0]]) (\<lambda>p y. Inr [[0]]) (\<lambda>loss ps. Inr ps)"

text \<open>A batch of one word position: the one-hot row of the first of the 47 characters.\<close>

definition letter_a :: matrix where
  "letter_a = [1 # replicate 46 0]"

text \<open>A model on single numbers with \<open>W_hidden = -1\<close> and \<open>W_hidden2 = 1\<close>.\<close>

definition scalar_words :: "real LanguageIDModel" where
  "scalar_words = (LanguageIDModel_init scalar_engine)\<lparr>W_hidden := - 1, W_hidden2 := 1\<rparr>"

text \<open>The rows of a batch rearranged: row \<open>i\<close> of the result is row \<open>p ! i\<close> of the
  batch.\<close>

definition permute_rows :: "nat list \<Rightarrow> matrix \<Rightarrow> matrix" where
  "permute_rows p X = map (\<lambda>i. X ! i) p"

text \<open>A small language model on matrices (two characters, hidden width one, two
  logits) and a batch of the two words \<open>ab\<close> and \<open>bb\<close>.\<close>

definition small_words :: "matrix LanguageIDModel" where
  "small_words = (LanguageIDModel_init zero_nn)
     \<lparr>LanguageIDModel.w1 := [[1]], LanguageIDModel.b1 := [[0]],
      LanguageIDModel.w2 := [[1]], LanguageIDModel.b2 := [[0]],
      w3 := [[1, - 1]], b3 := [[0, 1]],
      W_hidden := [[1], [2]], W_hidden2 := [[1]]\<rparr>"

definition two_words :: "matrix list" where
  "two_words = [[[1, 0], [0, 1]], [[0, 1], [0, 1]]]"

section \<open>Basic facts\<close>

lemma err_bind_Inl [simp]: "err_bind (Inl e) f = Inl e"
  by (simp add: err_bind_def)

lemma err_bind_Inr [simp]: "err_bind (Inr v) f = f v"
  by (simp add: err_bind_def)

lemma err_bind_eq_Inr:
  "err_bind r f = Inr z \<longleftrightarrow> (\<exists>v. r = Inr v \<and> f v = Inr z)"
  by (cases r) simp_all

lemma nn_engine_sel [simp]:
  "Parameter (nn_engine rnd sq sm gr) = nn_Parameter rnd"
  "DotProduct (nn_engine rnd sq sm gr) = nn_DotProduct"
  "Linear (nn_engine rnd sq sm gr) = nn_Linear"
  "AddBias (nn_engine rnd sq sm gr) = nn_AddBias"
  "Add (nn_engine rnd sq sm gr) = nn_Add"
  "ReLU (nn_engine rnd sq sm gr) = nn_ReLU"
  "SquareLoss (nn_engine rnd sq sm gr) = sq"
  "SoftmaxLoss (nn_engine rnd sq sm gr) = sm"
  "gradients (nn_engine rnd sq sm gr) = gr"
  "as_scalar (nn_engine rnd sq sm gr) = nn_as_scalar"
  "update (nn_engine rnd sq sm gr) = nn_update"
  by (simp_all add: nn_engine_def)

lemma scalar_engine_sel [simp]:
  "Parameter scalar_engine = (\<lambda>k r c. 0)"
  "DotProduct scalar_engine = (\<lambda>a b. Inr (a * b))"
  "Linear scalar_engine = (\<lambda>a b. Inr (a * b))"
  "AddBias scalar_engine = (\<lambda>a b. Inr (a + b))"
  "Add scalar_engine = (\<lambda>a b. Inr (a + b))"
  "ReLU scalar_engine = (\<lambda>a. Inr (max 0 a))"
  "SquareLoss scalar_engine = (\<lambda>a b. Inr ((a - b) * (a - b) / 2))"
  "SoftmaxLoss scalar_engine = (\<lambda>a b. Inr ((a - b) * (a - b) / 2))"
  "gradients scalar_engine = (\<lambda>loss ps. Inr (map (\<lambda>p. - 200) ps))"
  "as_scalar scalar_engine = (\<lambda>a. Inr a)"
  "update scalar_engine = (\<lambda>p d mult. Inr (p + mult * d))"
  by (simp_all add: scalar_engine_def)

section \<open>PerceptronModel: prediction and convergence\<close>

text \<open>
  C4. Whenever the score \<^verbatim>\<open>as_scalar(run(x))\<close> is a number \<open>v\<close>, \<^verbatim>\<open>get_prediction(x)\<close>
  returns \<open>+1\<close> if \<open>v\<close> is non-negative and \<open>-1\<close> if it is negative; at the score \<open>0\<close> it
  returns \<open>+1\<close>; and whatever it returns is \<open>+1\<close> or \<open>-1\<close>.
\<close>

theorem get_prediction_sign:
  "(PerceptronModel_run eng self x = Inr score \<and> as_scalar eng score = Inr v \<longrightarrow>
      PerceptronModel_get_prediction eng self x = Inr (if 0 \<le> v then 1 else - 1)) \<and>
   (PerceptronModel_run eng self x = Inr score \<and> as_scalar eng score = Inr 0 \<longrightarrow>
      PerceptronModel_get_prediction eng self x = Inr 1) \<and>
   (PerceptronModel_get_prediction eng self x = Inr p \<longrightarrow> p = 1 \<or> p = - 1)"
  by (auto simp: PerceptronModel_get_prediction_def err_bind_eq_Inr split: if_splits)

theorem get_prediction_sign_witness:
  "PerceptronModel_run zero_nn \<lparr>w = [[1, - 1]]\<rparr> [[2, 2]] = Inr [[0]] \<and>
   as_scalar zero_nn [[0]] = Inr 0 \<and>
   PerceptronModel_get_prediction zero_nn \<lparr>w = [[1, - 1]]\<rparr> [[2, 2]] = Inr 1 \<and>
   PerceptronModel_run zero_nn \<lparr>w = [[1, - 1]]\<rparr> [[0, 3]] = Inr [[- 3]] \<and>
   as_scalar zero_nn [[- 3]] = Inr (- 3) \<and>
   PerceptronModel_get_prediction zero_nn \<lparr>w = [[1, - 1]]\<rparr> [[0, 3]] = Inr (- 1)"
  using get_prediction_sign [of zero_nn "\<lparr>w = [[1, - 1]]\<rparr>" "[[2, 2]]" "[[0]]" 0 1]
        get_prediction_sign [of zero_nn "\<lparr>w = [[1, - 1]]\<rparr>" "[[0, 3]]" "[[- 3]]" "- 3" "- 1"]
  by (simp add: zero_nn_def PerceptronModel_run_def nn_DotProduct_def nn_as_scalar_def)

text \<open>Once an update has set the flag to \<open>-1\<close>, the rest of the pass leaves it there.\<close>

lemma pass_flag_stays:
  "PerceptronModel_train_pass eng ds (s, - 1) = Inr (s', c') \<Longrightarrow> c' = - 1"
proof (induction ds arbitrary: s)
  case Nil
  then show ?case by simp
next
  case (Cons b ds)
  obtain x y where b: "b = (x, y)" by (cases b)
  from Cons.prems show ?case
    unfolding b
    by (auto simp: err_bind_eq_Inr split: if_splits dest: Cons.IH)
qed

text \<open>A pass that ends with the flag positive has updated nothing: every example was
  predicted as labelled.\<close>

lemma pass_no_update:
  "PerceptronModel_train_pass eng ds (s, c) = Inr (s', c') \<Longrightarrow> 0 < c' \<Longrightarrow>
     s' = s \<and> c' = c \<and>
     (\<forall>(x, y) \<in> set ds. \<exists>p. PerceptronModel_get_prediction eng s x = Inr p \<and>
                             as_scalar eng y = Inr (real_of_int p))"
proof (induction ds)
  case Nil
  then show ?case by simp
next
  case (Cons b ds)
  obtain x y where b: "b = (x, y)" by (cases b)
  from Cons.prems(1) obtain temp p where
    t: "as_scalar eng y = Inr temp" and
    p: "PerceptronModel_get_prediction eng s x = Inr p" and
    rest: "(if real_of_int p \<noteq> temp
            then err_bind (update eng (w s) x temp) (\<lambda>w'.
                   PerceptronModel_train_pass eng ds (s\<lparr>w := w'\<rparr>, - 1))
            else PerceptronModel_train_pass eng ds (s, c)) = Inr (s', c')"
    unfolding b by (auto simp: err_bind_eq_Inr)
  show ?case
  proof (cases "real_of_int p = temp")
    case True
    with rest have "PerceptronModel_train_pass eng ds (s, c) = Inr (s', c')" by simp
    from Cons.IH [OF this Cons.prems(2)] t p True show ?thesis
      unfolding b by simp
  next
    case False
    with rest obtain w' where
      "PerceptronModel_train_pass eng ds (s\<lparr>w := w'\<rparr>, - 1) = Inr (s', c')"
      by (auto simp: err_bind_eq_Inr)
    from pass_flag_stays [OF this] Cons.prems(2) show ?thesis by simp
  qed
qed

lemma train_returns_settled:
  assumes "PerceptronModel_train eng dataset self = Some r"
  shows "\<forall>self'. r = Inr self' \<longrightarrow>
           PerceptronModel_train_pass eng (iterate_once dataset 1) (self', 1) = Inr (self', 1) \<and>
           (\<forall>(x, y) \<in> set (iterate_once dataset 1).
              \<exists>p. PerceptronModel_get_prediction eng self' x = Inr p \<and>
                  as_scalar eng y = Inr (real_of_int p))"
proof (rule PerceptronModel_train.raw_induct
    [where P = "\<lambda>eng dataset self r. \<forall>self'. r = Inr self' \<longrightarrow>
           PerceptronModel_train_pass eng (iterate_once dataset 1) (self', 1) = Inr (self', 1) \<and>
           (\<forall>(x, y) \<in> set (iterate_once dataset 1).
              \<exists>p. PerceptronModel_get_prediction eng self' x = Inr p \<and>
                  as_scalar eng y = Inr (real_of_int p))",
      OF _ assms])
  fix train :: "'a engine \<Rightarrow> ('a, 'a, 'a PerceptronModel) dataset \<Rightarrow> 'a PerceptronModel \<Rightarrow>
                (error + 'a PerceptronModel) option"
  fix eng dataset self r
  let ?goal = "\<lambda>eng dataset r. \<forall>self'. r = Inr self' \<longrightarrow>
           PerceptronModel_train_pass eng (iterate_once dataset 1) (self', 1) = Inr (self', 1) \<and>
           (\<forall>(x, y) \<in> set (iterate_once dataset 1).
              \<exists>p. PerceptronModel_get_prediction eng self' x = Inr p \<and>
                  as_scalar eng y = Inr (real_of_int p))"
  assume IH: "\<And>eng dataset self r. train eng dataset self = Some r \<Longrightarrow> ?goal eng dataset r"
  assume body:
    "(case PerceptronModel_train_pass eng (iterate_once dataset 1) (self, 1) of
        Inl e \<Rightarrow> Some (Inl e)
      | Inr (self', continuing) \<Rightarrow>
          if continuing > 0 then Some (Inr self') else train eng dataset self') = Some r"
  show "?goal eng dataset r"
  proof (cases "PerceptronModel_train_pass eng (iterate_once dataset 1) (self, 1)")
    case (Inl e)
    with body show ?thesis by auto
  next
    case (Inr st)
    obtain s c where st: "st = (s, c)" by (cases st)
    show ?thesis
    proof (cases "0 < c")
      case True
      with body Inr st have r: "r = Inr s" by simp
      from pass_no_update [OF Inr [unfolded st] True] r show ?thesis
        using Inr st by auto
    next
      case False
      with body Inr st have "train eng dataset s = Some r" by simp
      then show ?thesis by (rule IH)
    qed
  qed
qed

text \<open>
  C3. If \<^verbatim>\<open>PerceptronModel.train(dataset)\<close> returns the model \<open>self'\<close>, then a complete pass
  over \<^verbatim>\<open>dataset.iterate_once(1)\<close> from \<open>self'\<close> applies no update (it ends in the same model
  with the flag \<^verbatim>\<open>continuing\<close> still \<open>1\<close>), and for every example \<open>(x, y)\<close> of the dataset
  \<^verbatim>\<open>get_prediction(x)\<close> equals \<^verbatim>\<open>as_scalar(y)\<close>.
\<close>

theorem perceptron_train_returns:
  "PerceptronModel_train eng dataset self = Some (Inr self') \<Longrightarrow>
     PerceptronModel_train_pass eng (iterate_once dataset 1) (self', 1) = Inr (self', 1) \<and>
     (\<forall>(x, y) \<in> set (iterate_once dataset 1).
        \<exists>p. PerceptronModel_get_prediction eng self' x = Inr p \<and>
            as_scalar eng y = Inr (real_of_int p))"
  using train_returns_settled [of eng dataset self "Inr self'"] by simp

lemma sample_points_run:
  "PerceptronModel_train zero_nn sample_points \<lparr>w = [[0]]\<rparr> = Some (Inr \<lparr>w = [[- 1]]\<rparr>)"
  apply (subst PerceptronModel_train.simps)
  apply (subst PerceptronModel_train.simps)
  apply (simp add: sample_points_def zero_nn_def PerceptronModel_get_prediction_def
      PerceptronModel_run_def nn_DotProduct_def nn_as_scalar_def nn_update_def dims_def)
  done

theorem perceptron_train_returns_witness:
  "PerceptronModel_train zero_nn sample_points \<lparr>w = [[0]]\<rparr> = Some (Inr \<lparr>w = [[- 1]]\<rparr>) \<and>
   PerceptronModel_train_pass zero_nn (iterate_once sample_points 1) (\<lparr>w = [[- 1]]\<rparr>, 1)
     = Inr (\<lparr>w = [[- 1]]\<rparr>, 1) \<and>
   PerceptronModel_get_prediction zero_nn \<lparr>w = [[- 1]]\<rparr> [[1]] = Inr (- 1)"
  using perceptron_train_returns [OF sample_points_run] sample_points_run
  by (simp add: sample_points_def zero_nn_def PerceptronModel_get_prediction_def
      PerceptronModel_run_def nn_DotProduct_def nn_as_scalar_def)

section \<open>RegressionModel: the loss threshold\<close>

text \<open>
  C5. On an iteration of the loop of \<^verbatim>\<open>RegressionModel.train\<close> whose batch has a loss below
  \<open>0.02\<close>, the body breaks with the model as it was, and the loop standing at that batch
  returns that very model: no parameter is updated from there on. On an iteration whose
  batch has a loss of \<open>0.02\<close> or more and that completes, the gradients of the loss with
  respect to \<open>w1, w2, b1, b2\<close> were requested in one call and each of the four parameters
  was updated with the multiplier \<^verbatim>\<open>learning_rate\<close>.
\<close>

theorem regression_train_threshold:
  "(RegressionModel_get_loss eng self x y = Inr loss \<and> as_scalar eng loss = Inr v \<and> v < 0.02 \<longrightarrow>
      RegressionModel_train_body eng self (x, y) = Inr (Break self) \<and>
      (batches i = (x, y) \<longrightarrow>
         RegressionModel_train_loop eng batches self i = Some (Inr self))) \<and>
   (RegressionModel_get_loss eng self x y = Inr loss \<and> as_scalar eng loss = Inr v \<and>
    \<not> v < 0.02 \<and> RegressionModel_train_body eng self (x, y) = Inr r \<longrightarrow>
      (\<exists>g1 g2 g3 g4 w1' w2' b1' b2'.
         gradients eng loss
           [RegressionModel.w1 self, RegressionModel.w2 self,
            RegressionModel.b1 self, RegressionModel.b2 self] = Inr [g1, g2, g3, g4] \<and>
         update eng (RegressionModel.w1 self) g1 (RegressionModel.learning_rate self) = Inr w1' \<and>
         update eng (RegressionModel.w2 self) g2 (RegressionModel.learning_rate self) = Inr w2' \<and>
         update eng (RegressionModel.b1 self) g3 (RegressionModel.learning_rate self) = Inr b1' \<and>
         update eng (RegressionModel.b2 self) g4 (RegressionModel.learning_rate self) = Inr b2' \<and>
         r = Continue (self\<lparr>RegressionModel.w1 := w1', RegressionModel.w2 := w2',
                            RegressionModel.b1 := b1', RegressionModel.b2 := b2'\<rparr>)))"
proof (intro conjI impI)
  assume "RegressionModel_get_loss eng self x y = Inr loss \<and> as_scalar eng loss = Inr v \<and>
    v < 0.02"
  then show body: "RegressionModel_train_body eng self (x, y) = Inr (Break self)"
    by (simp add: RegressionModel_train_body_def)
  assume "batches i = (x, y)"
  with body show "RegressionModel_train_loop eng batches self i = Some (Inr self)"
    by (subst RegressionModel_train_loop.simps) simp
next
  let ?ps = "[RegressionModel.w1 self, RegressionModel.w2 self,
              RegressionModel.b1 self, RegressionModel.b2 self]"
  let ?lr = "RegressionModel.learning_rate self"
  assume a: "RegressionModel_get_loss eng self x y = Inr loss \<and> as_scalar eng loss = Inr v \<and>
    \<not> v < 0.02 \<and> RegressionModel_train_body eng self (x, y) = Inr r"
  then obtain grads where g: "gradients eng loss ?ps = Inr grads"
    and c: "(case grads of
               [grad_w1, grad_w2, grad_b1, grad_b2] \<Rightarrow>
                 err_bind (update eng (RegressionModel.w1 self) grad_w1 ?lr) (\<lambda>w1'.
                 err_bind (update eng (RegressionModel.w2 self) grad_w2 ?lr) (\<lambda>w2'.
                 err_bind (update eng (RegressionModel.b1 self) grad_b1 ?lr) (\<lambda>b1'.
                 err_bind (update eng (RegressionModel.b2 self) grad_b2 ?lr) (\<lambda>b2'.
                   Inr (Continue (self\<lparr>RegressionModel.w1 := w1', RegressionModel.w2 := w2',
                          RegressionModel.b1 := b1', RegressionModel.b2 := b2'\<rparr>))))))
             | _ \<Rightarrow> Inl ValueError) = Inr r"
    by (auto simp: RegressionModel_train_body_def err_bind_eq_Inr)
  from c obtain g1 g2 g3 g4 where gs: "grads = [g1, g2, g3, g4]"
    by (auto split: list.splits)
  from c [unfolded gs] g [unfolded gs]
  show "\<exists>g1 g2 g3 g4 w1' w2' b1' b2'.
         gradients eng loss ?ps = Inr [g1, g2, g3, g4] \<and>
         update eng (RegressionModel.w1 self) g1 ?lr = Inr w1' \<and>
         update eng (RegressionModel.w2 self) g2 ?lr = Inr w2' \<and>
         update eng (RegressionModel.b1 self) g3 ?lr = Inr b1' \<and>
         update eng (RegressionModel.b2 self) g4 ?lr = Inr b2' \<and>
         r = Continue (self\<lparr>RegressionModel.w1 := w1', RegressionModel.w2 := w2',
                            RegressionModel.b1 := b1', RegressionModel.b2 := b2'\<rparr>)"
    by (auto simp: err_bind_eq_Inr)
qed

theorem regression_train_threshold_witness:
  "RegressionModel_get_loss scalar_engine trained 1 3 = Inr 0 \<and>
   as_scalar scalar_engine 0 = Inr 0 \<and> (0 :: real) < 0.02 \<and>
   RegressionModel_train_body scalar_engine trained (1, 3) = Inr (Break trained) \<and>
   iterate_forever sample_batches 200 1 = (1, 3) \<and>
   RegressionModel_train_loop scalar_engine (iterate_forever sample_batches 200) trained 1
     = Some (Inr trained) \<and>
   RegressionModel_get_loss scalar_engine (RegressionModel_init scalar_engine) 1 3 = Inr (9 / 2) \<and>
   \<not> (9 / 2 :: real) < 0.02 \<and>
   RegressionModel_train_body scalar_engine (RegressionModel_init scalar_engine) (1, 3)
     = Inr (Continue trained)"
  using regression_train_threshold
          [of scalar_engine trained 1 3 0 0 "iterate_forever sample_batches 200" 1 "Continue trained"]
        regression_train_threshold
          [of scalar_engine "RegressionModel_init scalar_engine" 1 3 "9 / 2" "9 / 2"
              "iterate_forever sample_batches 200" 0 "Continue trained"]
  by (simp add: RegressionModel_train_body_def RegressionModel_get_loss_def
     RegressionModel_run_def RegressionModel_init_def sample_batches_def trained_def)

lemma count_engine_sel [simp]:
  "Parameter count_engine = (\<lambda>k r c. 0)"
  "DotProduct count_engine = (\<lambda>a b. Inr 0)"
  "Linear count_engine = (\<lambda>a b. Inr 0)"
  "AddBias count_engine = (\<lambda>a b. Inr 0)"
  "Add count_engine = (\<lambda>a b. Inr 0)"
  "ReLU count_engine = (\<lambda>a. Inr 0)"
  "SquareLoss count_engine = (\<lambda>a b. Inr 0)"
  "SoftmaxLoss count_engine = (\<lambda>a b. Inr 0)"
  "gradients count_engine = (\<lambda>loss ps. Inr (map (\<lambda>p. 0) ps))"
  "as_scalar count_engine = (\<lambda>a. Inr (real a))"
  "update count_engine = (\<lambda>p d mult. Inr (Suc p))"
  by (simp_all add: count_engine_def)

section \<open>DigitClassificationModel: the accuracy threshold\<close>

lemma digit_body_break:
  "get_validation_accuracy dataset (model st) \<ge> 0.978 \<Longrightarrow>
   DigitClassificationModel_train_body eng dataset st b =
     Inr (Break (st\<lparr>printed := printed st @ [get_validation_accuracy dataset (model st)],
                    queried := queried st @ [get_validation_accuracy dataset (model st),
                                             get_validation_accuracy dataset (model st)]\<rparr>))"
  by (cases b) (simp add: DigitClassificationModel_train_body_def Let_def)

lemma unpack4:
  "(case grads of [a, b, c, d] \<Rightarrow> f a b c d | _ \<Rightarrow> Inl ValueError) = Inr z \<longleftrightarrow>
   (\<exists>a b c d. grads = [a, b, c, d] \<and> f a b c d = Inr z)"
  by (auto split: list.splits)

lemma unpack6:
  "(case grads of [a, b, c, d, e, g] \<Rightarrow> f a b c d e g | _ \<Rightarrow> Inl ValueError) = Inr z \<longleftrightarrow>
   (\<exists>a b c d e g. grads = [a, b, c, d, e, g] \<and> f a b c d e g = Inr z)"
  by (auto split: list.splits)

lemma digit_body_low:
  assumes "\<not> get_validation_accuracy dataset (model st) \<ge> 0.978"
    and "DigitClassificationModel_train_body eng dataset st b = Inr r"
  shows "\<exists>m'. r = Continue (st\<lparr>printed := printed st @ [get_validation_accuracy dataset (model st)],
                    queried := queried st @ [get_validation_accuracy dataset (model st),
                                             get_validation_accuracy dataset (model st)],
                    model := m'\<rparr>)"
  using assms
  by (cases b)
     (auto simp: DigitClassificationModel_train_body_def Let_def err_bind_eq_Inr unpack4)

lemma digit_body_Continue:
  assumes "DigitClassificationModel_train_body eng dataset st b = Inr (Continue st')"
  shows "get_validation_accuracy dataset (model st) < 0.978 \<and>
         printed st' = printed st @ [get_validation_accuracy dataset (model st)] \<and>
         queried st' = queried st @ [get_validation_accuracy dataset (model st),
                                     get_validation_accuracy dataset (model st)]"
proof (cases "get_validation_accuracy dataset (model st) \<ge> 0.978")
  case True
  from digit_body_break [OF this, of eng b] assms show ?thesis by simp
next
  case False
  from digit_body_low [OF this assms] False show ?thesis by auto
qed

lemma digit_loop_returns:
  assumes "DigitClassificationModel_train_loop eng dataset batches st i = Some r"
  shows "\<forall>st'. r = Inr st' \<longrightarrow>
           queried st' \<noteq> [] \<and> last (queried st') \<ge> 0.978 \<and>
           last (queried st') = get_validation_accuracy dataset (model st')"
proof (rule DigitClassificationModel_train_loop.raw_induct
    [where P = "\<lambda>eng dataset batches st i r. \<forall>st'. r = Inr st' \<longrightarrow>
           queried st' \<noteq> [] \<and> last (queried st') \<ge> 0.978 \<and>
           last (queried st') = get_validation_accuracy dataset (model st')",
      OF _ assms])
  fix loop :: "'a engine \<Rightarrow> ('a, 'a, 'a DigitClassificationModel) dataset \<Rightarrow>
               (nat \<Rightarrow> 'a \<times> 'a) \<Rightarrow> 'a DigitClassificationModel training \<Rightarrow> nat \<Rightarrow>
               (error + 'a DigitClassificationModel training) option"
  fix eng dataset batches st i r
  let ?goal = "\<lambda>dataset r. \<forall>st'. r = Inr st' \<longrightarrow>
           queried st' \<noteq> [] \<and> last (queried st') \<ge> 0.978 \<and>
           last (queried st') = get_validation_accuracy dataset (model st')"
  assume IH: "\<And>eng dataset batches st i r.
                 loop eng dataset batches st i = Some r \<Longrightarrow> ?goal dataset r"
  assume body:
    "(case DigitClassificationModel_train_body eng dataset st (batches i) of
        Inl e \<Rightarrow> Some (Inl e)
      | Inr (Break st') \<Rightarrow> Some (Inr st')
      | Inr (Continue st') \<Rightarrow> loop eng dataset batches st' (Suc i)) = Some r"
  show "?goal dataset r"
  proof (cases "DigitClassificationModel_train_body eng dataset st (batches i)")
    case (Inl e)
    with body show ?thesis by auto
  next
    case (Inr step)
    show ?thesis
    proof (cases step)
      case (Break st1)
      have hi: "get_validation_accuracy dataset (model st) \<ge> 0.978"
      proof (rule ccontr)
        assume "\<not> get_validation_accuracy dataset (model st) \<ge> 0.978"
        from digit_body_low [OF this Inr] Break show False by auto
      qed
      from digit_body_break [OF hi, of eng "batches i"] Inr Break body hi
      show ?thesis by auto
    next
      case (Continue st1)
      with body Inr have "loop eng dataset batches st1 (Suc i) = Some r" by simp
      then show ?thesis by (rule IH)
    qed
  qed
qed


text \<open>
  C6. Every iteration of the loop of \<^verbatim>\<open>DigitClassificationModel.train\<close> reads the validation
  accuracy (twice: once to print it, once to test it). If it is \<open>0.978\<close> or more, the body
  breaks and the loop returns the state with the model as it was: no update follows. An
  iteration that goes on to the next batch has read an accuracy below \<open>0.978\<close>. When the
  loop, and so \<^verbatim>\<open>train\<close>, returns, the value read last is at least \<open>0.978\<close> and is the
  accuracy of the returned model.
\<close>

theorem digit_train_threshold:
  "(get_validation_accuracy dataset (model st) \<ge> 0.978 \<longrightarrow>
      DigitClassificationModel_train_body eng dataset st b =
        Inr (Break (st\<lparr>printed := printed st @ [get_validation_accuracy dataset (model st)],
                       queried := queried st @ [get_validation_accuracy dataset (model st),
                                                get_validation_accuracy dataset (model st)]\<rparr>)) \<and>
      DigitClassificationModel_train_loop eng dataset batches st i =
        Some (Inr (st\<lparr>printed := printed st @ [get_validation_accuracy dataset (model st)],
                      queried := queried st @ [get_validation_accuracy dataset (model st),
                                               get_validation_accuracy dataset (model st)]\<rparr>))) \<and>
   (DigitClassificationModel_train_body eng dataset st b = Inr (Continue st') \<longrightarrow>
      get_validation_accuracy dataset (model st) < 0.978 \<and>
      queried st' = queried st @ [get_validation_accuracy dataset (model st),
                                  get_validation_accuracy dataset (model st)]) \<and>
   (DigitClassificationModel_train_loop eng dataset batches st i = Some (Inr st'') \<longrightarrow>
      queried st'' \<noteq> [] \<and> last (queried st'') \<ge> 0.978 \<and>
      last (queried st'') = get_validation_accuracy dataset (model st'')) \<and>
   (DigitClassificationModel_train eng dataset self = Some (Inr st'') \<longrightarrow>
      queried st'' \<noteq> [] \<and> last (queried st'') \<ge> 0.978 \<and>
      last (queried st'') = get_validation_accuracy dataset (model st''))"
proof (intro conjI impI)
  assume hi: "get_validation_accuracy dataset (model st) \<ge> 0.978"
  show "DigitClassificationModel_train_body eng dataset st b =
        Inr (Break (st\<lparr>printed := printed st @ [get_validation_accuracy dataset (model st)],
                       queried := queried st @ [get_validation_accuracy dataset (model st),
                                                get_validation_accuracy dataset (model st)]\<rparr>))"
    by (rule digit_body_break [OF hi])
  show "DigitClassificationModel_train_loop eng dataset batches st i =
        Some (Inr (st\<lparr>printed := printed st @ [get_validation_accuracy dataset (model st)],
                      queried := queried st @ [get_validation_accuracy dataset (model st),
                                               get_validation_accuracy dataset (model st)]\<rparr>))"
    by (subst DigitClassificationModel_train_loop.simps)
       (simp add: digit_body_break [OF hi])
next
  assume c: "DigitClassificationModel_train_body eng dataset st b = Inr (Continue st')"
  from digit_body_Continue [OF c]
  show "get_validation_accuracy dataset (model st) < 0.978"
    and "queried st' = queried st @ [get_validation_accuracy dataset (model st),
                                    get_validation_accuracy dataset (model st)]"
    by simp_all
next
  assume l: "DigitClassificationModel_train_loop eng dataset batches st i = Some (Inr st'')"
  from digit_loop_returns [OF l]
  show "queried st'' \<noteq> []" and "last (queried st'') \<ge> 0.978"
    and "last (queried st'') = get_validation_accuracy dataset (model st'')"
    by simp_all
next
  assume t: "DigitClassificationModel_train eng dataset self = Some (Inr st'')"
  from digit_loop_returns [OF t [unfolded DigitClassificationModel_train_def]]
  show "queried st'' \<noteq> []" and "last (queried st'') \<ge> 0.978"
    and "last (queried st'') = get_validation_accuracy dataset (model st'')"
    by simp_all
qed

lemma digits_first_step:
  "DigitClassificationModel_train_body count_engine sample_digits
     \<lparr>model = digits_start, printed = [], queried = []\<rparr> (0, 0) =
   Inr (Continue \<lparr>model = digits_trained, printed = [0], queried = [0, 0]\<rparr>)"
  by (simp add: DigitClassificationModel_train_body_def Let_def sample_digits_def
      digits_start_def digits_trained_def DigitClassificationModel_init_def
      DigitClassificationModel_get_loss_def DigitClassificationModel_run_def)

lemma digits_acc [simp]:
  "get_validation_accuracy sample_digits digits_start = 0"
  "get_validation_accuracy sample_digits digits_trained = 1"
  by (simp_all add: sample_digits_def digits_start_def digits_trained_def
      DigitClassificationModel_init_def)

lemma digits_run:
  "DigitClassificationModel_train count_engine sample_digits digits_start =
   Some (Inr \<lparr>model = digits_trained, printed = [0, 1], queried = [0, 0, 1, 1]\<rparr>)"
proof -
  have batches: "iterate_forever sample_digits n = (\<lambda>i. (0, 0))" for n
    by (simp add: sample_digits_def)
  have second: "DigitClassificationModel_train_body count_engine sample_digits
     \<lparr>model = digits_trained, printed = [0], queried = [0, 0]\<rparr> (0, 0) =
     Inr (Break \<lparr>model = digits_trained, printed = [0, 1], queried = [0, 0, 1, 1]\<rparr>)"
    by (simp add: digit_body_break)
  show ?thesis
    unfolding DigitClassificationModel_train_def batches
    apply (subst DigitClassificationModel_train_loop.simps)
    apply (simp add: digits_first_step)
    apply (subst DigitClassificationModel_train_loop.simps)
    apply (simp add: second)
    done
qed

theorem digit_train_threshold_witness:
  "get_validation_accuracy sample_digits digits_trained \<ge> 0.978 \<and>
   DigitClassificationModel_train_loop count_engine sample_digits (\<lambda>i. (0, 0))
     \<lparr>model = digits_trained, printed = [0], queried = [0, 0]\<rparr> 1 =
     Some (Inr \<lparr>model = digits_trained, printed = [0, 1], queried = [0, 0, 1, 1]\<rparr>) \<and>
   DigitClassificationModel_train_body count_engine sample_digits
     \<lparr>model = digits_start, printed = [], queried = []\<rparr> (0, 0) =
     Inr (Continue \<lparr>model = digits_trained, printed = [0], queried = [0, 0]\<rparr>) \<and>
   get_validation_accuracy sample_digits digits_start < 0.978 \<and>
   DigitClassificationModel_train count_engine sample_digits digits_start =
     Some (Inr \<lparr>model = digits_trained, printed = [0, 1], queried = [0, 0, 1, 1]\<rparr>) \<and>
   last [0, 0, 1, 1 :: real] \<ge> 0.978"
  using digit_train_threshold
          [of sample_digits "\<lparr>model = digits_trained, printed = [0], queried = [0, 0]\<rparr>"
              count_engine "(0, 0)" "\<lambda>i. (0, 0)" 1
              "\<lparr>model = digits_trained, printed = [0], queried = [0, 0]\<rparr>"
              "\<lparr>model = digits_trained, printed = [0, 1], queried = [0, 0, 1, 1]\<rparr>"
              digits_start]
        digit_train_threshold
          [of sample_digits "\<lparr>model = digits_start, printed = [], queried = []\<rparr>"
              count_engine "(0, 0)" "\<lambda>i. (0, 0)" 0
              "\<lparr>model = digits_trained, printed = [0], queried = [0, 0]\<rparr>"
              "\<lparr>model = digits_trained, printed = [0, 1], queried = [0, 0, 1, 1]\<rparr>"
              digits_start]
        digits_first_step digits_run
  by simp

section \<open>LanguageIDModel: what a training step updates\<close>

text \<open>
  C2, as amended. On every iteration of \<^verbatim>\<open>LanguageIDModel.train\<close> that goes on to the next
  batch, the validation accuracy read was below \<open>0.86\<close>, the gradients of the loss were
  requested in one call for exactly the six parameters \<open>w1, w2, w3, b1, b2, b3\<close>, and each
  of these six was updated with the multiplier \<^verbatim>\<open>learning_rate\<close>; the two recurrent matrices
  \<open>W_hidden\<close> and \<open>W_hidden2\<close> are left as they were.
\<close>

theorem language_train_updates:
  "LanguageIDModel_train_body eng dataset st (xs, y) = Inr (Continue st') \<Longrightarrow>
   get_validation_accuracy dataset (model st) < 0.86 \<and>
   (\<exists>temp g1 g2 g3 g4 g5 g6.
      LanguageIDModel_get_loss eng (model st) xs y = Inr temp \<and>
      gradients eng temp
        [LanguageIDModel.w1 (model st), LanguageIDModel.w2 (model st), w3 (model st),
         LanguageIDModel.b1 (model st), LanguageIDModel.b2 (model st), b3 (model st)]
        = Inr [g1, g2, g3, g4, g5, g6] \<and>
      update eng (LanguageIDModel.w1 (model st)) g1 (LanguageIDModel.learning_rate (model st))
        = Inr (LanguageIDModel.w1 (model st')) \<and>
      update eng (LanguageIDModel.w2 (model st)) g2 (LanguageIDModel.learning_rate (model st))
        = Inr (LanguageIDModel.w2 (model st')) \<and>
      update eng (w3 (model st)) g3 (LanguageIDModel.learning_rate (model st))
        = Inr (w3 (model st')) \<and>
      update eng (LanguageIDModel.b1 (model st)) g4 (LanguageIDModel.learning_rate (model st))
        = Inr (LanguageIDModel.b1 (model st')) \<and>
      update eng (LanguageIDModel.b2 (model st)) g5 (LanguageIDModel.learning_rate (model st))
        = Inr (LanguageIDModel.b2 (model st')) \<and>
      update eng (b3 (model st)) g6 (LanguageIDModel.learning_rate (model st))
        = Inr (b3 (model st'))) \<and>
   W_hidden (model st') = W_hidden (model st) \<and>
   W_hidden2 (model st') = W_hidden2 (model st)"
proof -
  assume a: "LanguageIDModel_train_body eng dataset st (xs, y) = Inr (Continue st')"
  let ?self = "model st"
  let ?lr = "LanguageIDModel.learning_rate ?self"
  let ?st1 = "st\<lparr>queried := queried st @ [get_validation_accuracy dataset ?self]\<rparr>"
  from a have low: "\<not> get_validation_accuracy dataset ?self \<ge> 0.86"
    by (auto simp: LanguageIDModel_train_body_def Let_def)
  with a obtain temp grads where
    t: "LanguageIDModel_get_loss eng ?self xs y = Inr temp" and
    g: "gradients eng temp
          [LanguageIDModel.w1 ?self, LanguageIDModel.w2 ?self, w3 ?self,
           LanguageIDModel.b1 ?self, LanguageIDModel.b2 ?self, b3 ?self] = Inr grads" and
    c: "(case grads of
           [grad_w1, grad_w2, grad_w3, grad_b1, grad_b2, grad_b3] \<Rightarrow>
             err_bind (update eng (LanguageIDModel.w1 ?self) grad_w1 ?lr) (\<lambda>w1'.
             err_bind (update eng (LanguageIDModel.w2 ?self) grad_w2 ?lr) (\<lambda>w2'.
             err_bind (update eng (w3 ?self) grad_w3 ?lr) (\<lambda>w3'.
             err_bind (update eng (LanguageIDModel.b1 ?self) grad_b1 ?lr) (\<lambda>b1'.
             err_bind (update eng (LanguageIDModel.b2 ?self) grad_b2 ?lr) (\<lambda>b2'.
             err_bind (update eng (b3 ?self) grad_b3 ?lr) (\<lambda>b3'.
               Inr (Continue (?st1\<lparr>model :=
                 ?self\<lparr>LanguageIDModel.w1 := w1', LanguageIDModel.w2 := w2',
                        w3 := w3', LanguageIDModel.b1 := b1',
                        LanguageIDModel.b2 := b2', b3 := b3'\<rparr>\<rparr>))))))))
         | _ \<Rightarrow> Inl ValueError) = Inr (Continue st')"
    by (auto simp: LanguageIDModel_train_body_def Let_def err_bind_eq_Inr)
  from c obtain g1 g2 g3 g4 g5 g6 where gs: "grads = [g1, g2, g3, g4, g5, g6]"
    by (auto simp: unpack6)
  from c [unfolded gs] obtain w1' w2' w3' b1' b2' b3' where
    u: "update eng (LanguageIDModel.w1 ?self) g1 ?lr = Inr w1'"
       "update eng (LanguageIDModel.w2 ?self) g2 ?lr = Inr w2'"
       "update eng (w3 ?self) g3 ?lr = Inr w3'"
       "update eng (LanguageIDModel.b1 ?self) g4 ?lr = Inr b1'"
       "update eng (LanguageIDModel.b2 ?self) g5 ?lr = Inr b2'"
       "update eng (b3 ?self) g6 ?lr = Inr b3'" and
    st': "st' = ?st1\<lparr>model :=
                 ?self\<lparr>LanguageIDModel.w1 := w1', LanguageIDModel.w2 := w2',
                        w3 := w3', LanguageIDModel.b1 := b1',
                        LanguageIDModel.b2 := b2', b3 := b3'\<rparr>\<rparr>"
    by (auto simp: err_bind_eq_Inr)
  from low t g [unfolded gs] u show ?thesis
    unfolding st' by auto
qed

text \<open>
  C2, as stated, fails. With the counting engine, one iteration from a fresh model brings
  each of the six dense parameters to \<open>1\<close> and leaves \<open>W_hidden\<close> and \<open>W_hidden2\<close> at \<open>0\<close>,
  although any update of them by this engine would have made them \<open>1\<close>.
\<close>

theorem language_train_updates_counterexample:
  "LanguageIDModel_train_body count_engine sample_words
     \<lparr>model = words_start, printed = [], queried = []\<rparr> ([0], 0) =
   Inr (Continue
     \<lparr>model = words_start
        \<lparr>LanguageIDModel.w1 := 1, LanguageIDModel.w2 := 1, w3 := 1,
         LanguageIDModel.b1 := 1, LanguageIDModel.b2 := 1, b3 := 1\<rparr>,
      printed = [], queried = [0]\<rparr>) \<and>
   W_hidden (words_start
        \<lparr>LanguageIDModel.w1 := 1, LanguageIDModel.w2 := 1, w3 := 1,
         LanguageIDModel.b1 := 1, LanguageIDModel.b2 := 1, b3 := 1\<rparr>) = 0 \<and>
   W_hidden2 (words_start
        \<lparr>LanguageIDModel.w1 := 1, LanguageIDModel.w2 := 1, w3 := 1,
         LanguageIDModel.b1 := 1, LanguageIDModel.b2 := 1, b3 := 1\<rparr>) = 0 \<and>
   update count_engine (W_hidden words_start) 0 (LanguageIDModel.learning_rate words_start) = Inr 1 \<and>
   update count_engine (W_hidden2 words_start) 0 (LanguageIDModel.learning_rate words_start) = Inr 1"
  by (simp add: LanguageIDModel_train_body_def Let_def sample_words_def words_start_def
      LanguageIDModel_init_def LanguageIDModel_get_loss_def LanguageIDModel_run_def
      LanguageIDModel_run_dense_def)

lemma words_first_step:
  "LanguageIDModel_train_body count_engine sample_words
     \<lparr>model = words_start, printed = [], queried = []\<rparr> ([0], 0) =
   Inr (Continue
     \<lparr>model = words_start
        \<lparr>LanguageIDModel.w1 := 1, LanguageIDModel.w2 := 1, w3 := 1,
         LanguageIDModel.b1 := 1, LanguageIDModel.b2 := 1, b3 := 1\<rparr>,
      printed = [], queried = [0]\<rparr>)"
  by (simp add: LanguageIDModel_train_body_def Let_def sample_words_def words_start_def
      LanguageIDModel_init_def LanguageIDModel_get_loss_def LanguageIDModel_run_def
      LanguageIDModel_run_dense_def)

theorem language_train_updates_witness:
  "LanguageIDModel_train_body count_engine sample_words
     \<lparr>model = words_start, printed = [], queried = []\<rparr> ([0], 0) =
   Inr (Continue
     \<lparr>model = words_start
        \<lparr>LanguageIDModel.w1 := 1, LanguageIDModel.w2 := 1, w3 := 1,
         LanguageIDModel.b1 := 1, LanguageIDModel.b2 := 1, b3 := 1\<rparr>,
      printed = [], queried = [0]\<rparr>) \<and>
   get_validation_accuracy sample_words words_start < 0.86 \<and>
   W_hidden (words_start
        \<lparr>LanguageIDModel.w1 := 1, LanguageIDModel.w2 := 1, w3 := 1,
         LanguageIDModel.b1 := 1, LanguageIDModel.b2 := 1, b3 := 1\<rparr>) = W_hidden words_start"
  using language_train_updates [OF words_first_step] words_first_step
  by simp

section \<open>LanguageIDModel: the recurrence of run\<close>

text \<open>The loop over a concatenation is the loop over the first part, then over the
  second from the state reached.\<close>

lemma run_loop_append:
  "LanguageIDModel_run_loop eng self (xs @ ys) st =
     err_bind (LanguageIDModel_run_loop eng self xs st) (LanguageIDModel_run_loop eng self ys)"
proof (induction xs arbitrary: st)
  case Nil
  show ?case by simp
next
  case (Cons x xs)
  obtain first v where st: "st = (first, v)" by (cases st)
  show ?case
  proof (cases "first = 1")
    case True
    show ?thesis
    proof (cases "Linear eng x (W_hidden self)")
      case (Inl e)
      with True st show ?thesis by simp
    next
      case lin: (Inr l)
      show ?thesis
      proof (cases "ReLU eng l")
        case (Inl e)
        with True st lin show ?thesis by simp
      next
        case (Inr h)
        with True st lin Cons.IH show ?thesis by simp
      qed
    qed
  next
    case False
    show ?thesis
    proof (cases "Linear eng x (W_hidden self)")
      case (Inl e)
      with False st show ?thesis by simp
    next
      case lin: (Inr l)
      show ?thesis
      proof (cases v)
        case None
        with False st lin show ?thesis by simp
      next
        case (Some h)
        show ?thesis
        proof (cases "Linear eng h (W_hidden2 self)")
          case (Inl e)
          with False st lin Some show ?thesis by simp
        next
          case rec: (Inr r)
          show ?thesis
          proof (cases "Add eng l r")
            case (Inl e)
            with False st lin Some rec show ?thesis by simp
          next
            case (Inr h')
            with False st lin Some rec Cons.IH show ?thesis by simp
          qed
        qed
      qed
    qed
  qed
qed

lemma run_loop_bound_stays:
  "LanguageIDModel_run_loop eng self xs (0, Some h) = Inr st' \<Longrightarrow> \<exists>h'. st' = (0, Some h')"
proof (induction xs arbitrary: h)
  case Nil
  then show ?case by auto
next
  case (Cons x xs)
  from Cons.prems obtain h1 where
    "LanguageIDModel_run_loop eng self xs (0, Some h1) = Inr st'"
    by (auto simp: err_bind_eq_Inr)
  then show ?case by (rule Cons.IH)
qed

lemma run_loop_binds:
  "xs \<noteq> [] \<Longrightarrow> LanguageIDModel_run_loop eng self xs (1, v) = Inr st' \<Longrightarrow>
     \<exists>h'. st' = (0, Some h')"
proof (cases xs)
  case Nil
  assume "xs \<noteq> []"
  with Nil show ?thesis by simp
next
  case (Cons x rest)
  assume "LanguageIDModel_run_loop eng self xs (1, v) = Inr st'"
  with Cons obtain h1 where
    "LanguageIDModel_run_loop eng self rest (0, Some h1) = Inr st'"
    by (auto simp: err_bind_eq_Inr)
  then show ?thesis by (rule run_loop_bound_stays)
qed

lemma hidden_single:
  "LanguageIDModel_hidden eng self [x0] = err_bind (Linear eng x0 (W_hidden self)) (ReLU eng)"
proof (cases "Linear eng x0 (W_hidden self)")
  case (Inl e)
  then show ?thesis by (simp add: LanguageIDModel_hidden_def)
next
  case (Inr l)
  then show ?thesis
    by (cases "ReLU eng l") (simp_all add: LanguageIDModel_hidden_def)
qed

lemma hidden_snoc:
  assumes "xs \<noteq> []"
  shows "LanguageIDModel_hidden eng self (xs @ [x]) =
     err_bind (LanguageIDModel_hidden eng self xs) (\<lambda>h.
     err_bind (Linear eng x (W_hidden self)) (\<lambda>lin.
     err_bind (Linear eng h (W_hidden2 self)) (\<lambda>rec.
       Add eng lin rec)))"
proof (cases "LanguageIDModel_run_loop eng self xs (1, None)")
  case (Inl e)
  then show ?thesis by (simp add: LanguageIDModel_hidden_def run_loop_append)
next
  case (Inr st')
  from run_loop_binds [OF assms Inr] obtain h where st': "st' = (0, Some h)" by blast
  show ?thesis
  proof (cases "Linear eng x (W_hidden self)")
    case (Inl e)
    with Inr st' show ?thesis by (simp add: LanguageIDModel_hidden_def run_loop_append)
  next
    case lin: (Inr l)
    show ?thesis
    proof (cases "Linear eng h (W_hidden2 self)")
      case (Inl e)
      with Inr st' lin show ?thesis by (simp add: LanguageIDModel_hidden_def run_loop_append)
    next
      case rec: (Inr r)
      with Inr st' lin show ?thesis
        by (cases "Add eng l r") (simp_all add: LanguageIDModel_hidden_def run_loop_append)
    qed
  qed
qed

lemma run_via_hidden:
  "LanguageIDModel_run eng self xs =
     err_bind (LanguageIDModel_hidden eng self xs) (LanguageIDModel_run_dense eng self)"
proof (cases "LanguageIDModel_run_loop eng self xs (1, None)")
  case (Inl e)
  then show ?thesis by (simp add: LanguageIDModel_run_def LanguageIDModel_hidden_def)
next
  case (Inr st')
  then show ?thesis
    by (cases "snd st'") (simp_all add: LanguageIDModel_run_def LanguageIDModel_hidden_def)
qed

text \<open>
  C1, as amended. Over a non-empty sequence the hidden state of \<^verbatim>\<open>LanguageIDModel.run\<close> is
  \<open>ReLU(Linear(x_0, W_hidden))\<close> after the first character, and after each later character
  \<open>x\<close> it is \<open>Add(Linear(x, W_hidden), Linear(h, W_hidden2))\<close> of the state \<open>h\<close> before, with
  no rectification; \<^verbatim>\<open>run\<close> applies the dense layers to the state after the last
  character.
\<close>

theorem hidden_recurrence:
  "LanguageIDModel_hidden eng self [x0] =
     err_bind (Linear eng x0 (W_hidden self)) (ReLU eng) \<and>
   (xs \<noteq> [] \<longrightarrow>
      LanguageIDModel_hidden eng self (xs @ [x]) =
        err_bind (LanguageIDModel_hidden eng self xs) (\<lambda>h.
        err_bind (Linear eng x (W_hidden self)) (\<lambda>lin.
        err_bind (Linear eng h (W_hidden2 self)) (\<lambda>rec.
          Add eng lin rec)))) \<and>
   LanguageIDModel_run eng self xs =
     err_bind (LanguageIDModel_hidden eng self xs) (LanguageIDModel_run_dense eng self)"
  by (intro conjI impI hidden_single hidden_snoc run_via_hidden)

theorem hidden_recurrence_witness:
  "[1 :: real] \<noteq> [] \<and>
   LanguageIDModel_hidden scalar_engine scalar_words [1] = Inr 0 \<and>
   LanguageIDModel_hidden scalar_engine scalar_words ([1] @ [1]) = Inr (- 1)"
  using hidden_recurrence [of scalar_engine scalar_words 1 "[1]" 1]
  by (simp add: scalar_words_def LanguageIDModel_init_def)

text \<open>
  C10. On the empty list the loop of \<^verbatim>\<open>LanguageIDModel.run\<close> executes no iteration and
  leaves \<^verbatim>\<open>x\<close> unbound, and \<^verbatim>\<open>run\<close> fails on reading \<^verbatim>\<open>x\<close> for the first dense
  layer: it returns no node.
\<close>

theorem run_empty_fails:
  "LanguageIDModel_run_loop eng self [] (1, None) = Inr (1, None) \<and>
   LanguageIDModel_run eng self [] = Inl UnboundLocalError"
  by (simp add: LanguageIDModel_run_def)

text \<open>
  C8. On a sequence of one character \<^verbatim>\<open>LanguageIDModel.run\<close> is the dense layers applied
  to \<open>ReLU(Linear(x_0, W_hidden))\<close>; its result does not depend on \<open>W_hidden2\<close> nor on what
  the engine's \<^verbatim>\<open>Add\<close> does.
\<close>

theorem run_single_character:
  "LanguageIDModel_run eng self [x0] =
     err_bind (Linear eng x0 (W_hidden self)) (\<lambda>lin.
     err_bind (ReLU eng lin) (\<lambda>h.
       LanguageIDModel_run_dense eng self h)) \<and>
   LanguageIDModel_run eng (self\<lparr>W_hidden2 := v\<rparr>) [x0] = LanguageIDModel_run eng self [x0] \<and>
   LanguageIDModel_run (eng\<lparr>Add := f\<rparr>) self [x0] = LanguageIDModel_run eng self [x0]"
proof -
  have one: "LanguageIDModel_run eng self [x0] =
     err_bind (Linear eng x0 (W_hidden self)) (\<lambda>lin.
     err_bind (ReLU eng lin) (\<lambda>h. LanguageIDModel_run_dense eng self h))"
    for eng :: "'a engine" and self :: "'a LanguageIDModel"
  proof (cases "Linear eng x0 (W_hidden self)")
    case (Inl e)
    then show ?thesis by (simp add: LanguageIDModel_run_def)
  next
    case (Inr l)
    then show ?thesis by (cases "ReLU eng l") (simp_all add: LanguageIDModel_run_def)
  qed
  show ?thesis
    by (simp add: one LanguageIDModel_run_dense_def)
qed

section \<open>RegressionModel: the shape of run\<close>

text \<open>What \<open>dims\<close> says: a non-empty list of rows of one positive length.\<close>

lemma dims_Some_iff:
  "dims X = Some (n, c) \<longleftrightarrow>
     X \<noteq> [] \<and> length X = n \<and> 0 < c \<and> (\<forall>row \<in> set X. length row = c)"
  by (cases X) (auto simp: dims_def list_all_iff)

lemma dims_map_rows:
  assumes "dims X = Some (n, c)" and "\<And>row. row \<in> set X \<Longrightarrow> length (f row) = c'" and "0 < c'"
  shows "dims (map f X) = Some (n, c')"
  using assms by (auto simp: dims_Some_iff)

lemma length_vec_mat [simp]: "length (vec_mat c row W) = c"
  by (simp add: vec_mat_def)

lemma dims_Parameter:
  "0 < r \<Longrightarrow> 0 < c \<Longrightarrow> dims (nn_Parameter rnd k r c) = Some (r, c)"
  by (auto simp: dims_Some_iff nn_Parameter_def)

lemma nn_Linear_shape:
  assumes "dims X = Some (n, k)" and "dims W = Some (k, c)"
  shows "nn_Linear X W = Inr (map (\<lambda>row. vec_mat c row W) X) \<and>
         dims (map (\<lambda>row. vec_mat c row W) X) = Some (n, c)"
proof -
  from assms(2) have "0 < c" by (simp add: dims_Some_iff)
  with assms show ?thesis
    by (simp add: nn_Linear_def dims_map_rows)
qed

lemma dims_one_row:
  "dims b = Some (Suc 0, c) \<Longrightarrow> \<exists>brow. b = [brow] \<and> length brow = c"
  by (cases b) (auto simp: dims_Some_iff)

lemma nn_AddBias_shape:
  assumes "dims X = Some (n, c)" and "dims b = Some (1, c)"
  shows "\<exists>Y. nn_AddBias X b = Inr Y \<and> dims Y = Some (n, c)"
proof -
  from assms(2) obtain brow where b: "b = [brow]" "length brow = c"
    using dims_one_row by auto
  from assms(1) have c: "0 < c" by (simp add: dims_Some_iff)
  have "dims (map (\<lambda>row. map2 (+) row brow) X) = Some (n, c)"
    using assms(1) b(2) by (auto simp: dims_Some_iff)
  with assms(1) b show ?thesis by (simp add: nn_AddBias_def)
qed

lemma nn_ReLU_shape:
  assumes "dims X = Some (n, c)"
  shows "nn_ReLU X = Inr (map (map (max 0)) X) \<and> dims (map (map (max 0)) X) = Some (n, c)"
  using assms by (auto simp: nn_ReLU_def dims_Some_iff)

text \<open>
  C7. The constructor of \<^verbatim>\<open>RegressionModel\<close> makes \<open>w1\<close> and \<open>b1\<close> of shape \<open>(1, 50)\<close>, \<open>w2\<close>
  of shape \<open>(50, 1)\<close> and \<open>b2\<close> of shape \<open>(1, 1)\<close>, with hidden width 50. With parameters
  of these shapes and an input of shape \<open>(B, 1)\<close>, \<open>B\<close> positive, every operation of
  \<^verbatim>\<open>run\<close> succeeds, \<^verbatim>\<open>run\<close> returns
  \<open>AddBias(Linear(ReLU(AddBias(Linear(x, w1), b1)), w2), b2)\<close>, and the node returned has
  shape \<open>(B, 1)\<close>.
\<close>

theorem regression_run_shape:
  "(dims (RegressionModel.w1 (RegressionModel_init (nn_engine rnd sq sm gr))) = Some (1, 50) \<and>
    dims (RegressionModel.b1 (RegressionModel_init (nn_engine rnd sq sm gr))) = Some (1, 50) \<and>
    dims (RegressionModel.w2 (RegressionModel_init (nn_engine rnd sq sm gr))) = Some (50, 1) \<and>
    dims (RegressionModel.b2 (RegressionModel_init (nn_engine rnd sq sm gr))) = Some (1, 1) \<and>
    RegressionModel.hidden_layer (RegressionModel_init (nn_engine rnd sq sm gr)) = 50) \<and>
   (dims (RegressionModel.w1 self) = Some (1, 50) \<and>
    dims (RegressionModel.b1 self) = Some (1, 50) \<and>
    dims (RegressionModel.w2 self) = Some (50, 1) \<and>
    dims (RegressionModel.b2 self) = Some (1, 1) \<and>
    dims x = Some (B, 1) \<and> 0 < B \<longrightarrow>
      (\<exists>dot pre bias_added dot2 out.
         nn_Linear x (RegressionModel.w1 self) = Inr dot \<and>
         nn_AddBias dot (RegressionModel.b1 self) = Inr pre \<and>
         nn_ReLU pre = Inr bias_added \<and>
         nn_Linear bias_added (RegressionModel.w2 self) = Inr dot2 \<and>
         nn_AddBias dot2 (RegressionModel.b2 self) = Inr out \<and>
         RegressionModel_run (nn_engine rnd sq sm gr) self x = Inr out \<and>
         dims out = Some (B, 1)))"
proof (intro conjI impI)
  assume a: "dims (RegressionModel.w1 self) = Some (1, 50) \<and>
    dims (RegressionModel.b1 self) = Some (1, 50) \<and>
    dims (RegressionModel.w2 self) = Some (50, 1) \<and>
    dims (RegressionModel.b2 self) = Some (1, 1) \<and>
    dims x = Some (B, 1) \<and> 0 < B"
  from nn_Linear_shape [of x B 1 "RegressionModel.w1 self" 50] a
  obtain dot where dot: "nn_Linear x (RegressionModel.w1 self) = Inr dot"
    "dims dot = Some (B, 50)" by auto
  from nn_AddBias_shape [OF dot(2), of "RegressionModel.b1 self"] a
  obtain pre where pre: "nn_AddBias dot (RegressionModel.b1 self) = Inr pre"
    "dims pre = Some (B, 50)" by auto
  from nn_ReLU_shape [OF pre(2)]
  obtain bias_added where ba: "nn_ReLU pre = Inr bias_added"
    "dims bias_added = Some (B, 50)" by auto
  from nn_Linear_shape [OF ba(2), of "RegressionModel.w2 self" 1] a
  obtain dot2 where dot2: "nn_Linear bias_added (RegressionModel.w2 self) = Inr dot2"
    "dims dot2 = Some (B, 1)" by auto
  from nn_AddBias_shape [OF dot2(2), of "RegressionModel.b2 self"] a
  obtain out where out: "nn_AddBias dot2 (RegressionModel.b2 self) = Inr out"
    "dims out = Some (B, 1)" by auto
  have "RegressionModel_run (nn_engine rnd sq sm gr) self x = Inr out"
    by (simp add: RegressionModel_run_def dot pre ba dot2 out)
  with dot pre ba dot2 out
  show "\<exists>dot pre bias_added dot2 out.
         nn_Linear x (RegressionModel.w1 self) = Inr dot \<and>
         nn_AddBias dot (RegressionModel.b1 self) = Inr pre \<and>
         nn_ReLU pre = Inr bias_added \<and>
         nn_Linear bias_added (RegressionModel.w2 self) = Inr dot2 \<and>
         nn_AddBias dot2 (RegressionModel.b2 self) = Inr out \<and>
         RegressionModel_run (nn_engine rnd sq sm gr) self x = Inr out \<and>
         dims out = Some (B, 1)"
    by blast
qed (simp_all add: RegressionModel_init_def Let_def dims_Parameter)


lemma zero_regression_run:
  "RegressionModel_run zero_nn (RegressionModel_init zero_nn) [[1], [2]] = Inr [[0], [0]]"
  by code_simp

theorem regression_run_shape_witness:
  "dims (RegressionModel.w1 (RegressionModel_init zero_nn)) = Some (1, 50) \<and>
   dims (RegressionModel.b1 (RegressionModel_init zero_nn)) = Some (1, 50) \<and>
   dims (RegressionModel.w2 (RegressionModel_init zero_nn)) = Some (50, 1) \<and>
   dims (RegressionModel.b2 (RegressionModel_init zero_nn)) = Some (1, 1) \<and>
   dims [[1], [2]] = Some (2, 1) \<and> (0 :: nat) < 2 \<and>
   RegressionModel_run zero_nn (RegressionModel_init zero_nn) [[1], [2]] = Inr [[0], [0]] \<and>
   dims [[0], [0]] = Some (2, 1)"
  using regression_run_shape
          [where rnd = "\<lambda>k i j. 0" and sq = "\<lambda>p y. Inr [[0]]" and sm = "\<lambda>p y. Inr [[0]]"
             and gr = "\<lambda>loss ps. Inr ps" and self = "RegressionModel_init zero_nn"
             and x = "[[1], [2]]" and B = 2]
        zero_regression_run
  by (simp add: zero_nn_def dims_def)

section \<open>LanguageIDModel: the recurrence on matrices\<close>

text \<open>A parameter whose entries are all equal, and the product of a batch with it.\<close>

lemma param_const:
  "nn_Parameter (\<lambda>k i j. g k) k r c = replicate r (replicate c (g k))"
  by (simp add: nn_Parameter_def map_replicate_const)

lemma vec_mat_const:
  assumes "length row = r"
  shows "vec_mat c row (replicate r (replicate c v)) = replicate c (sum_list row * v)"
proof -
  have inner: "sum_list (map (\<lambda>k. row ! k * replicate r (replicate c v) ! k ! j) [0..<length row])
                 = sum_list row * v" if "j < c" for j
  proof -
    have "map (\<lambda>k. row ! k * replicate r (replicate c v) ! k ! j) [0..<length row]
            = map (\<lambda>x. x * v) (map (\<lambda>k. row ! k) [0..<length row])"
      using assms that by simp
    also have "\<dots> = map (\<lambda>x. x * v) row"
      by (simp only: map_nth)
    finally show ?thesis
      by (simp add: sum_list_mult_const)
  qed
  have "map (\<lambda>j. sum_list (map (\<lambda>k. row ! k * replicate r (replicate c v) ! k ! j)
               [0..<length row])) [0..<c]
          = map (\<lambda>j. sum_list row * v) [0..<c]"
    by (rule map_cong) (simp_all add: inner)
  then show ?thesis
    by (simp add: vec_mat_def map_replicate_const)
qed

lemma nn_Linear_const:
  assumes "dims X = Some (n, r)" and "0 < c"
  shows "nn_Linear X (replicate r (replicate c v)) =
           Inr (map (\<lambda>row. replicate c (sum_list row * v)) X)"
proof -
  from assms have r: "0 < r" and rows: "\<forall>row \<in> set X. length row = r"
    by (simp_all add: dims_Some_iff)
  from r assms(2) have W: "dims (replicate r (replicate c v)) = Some (r, c)"
    by (auto simp: dims_Some_iff)
  have "map (\<lambda>row. vec_mat c row (replicate r (replicate c v))) X
          = map (\<lambda>row. replicate c (sum_list row * v)) X"
    by (rule map_cong) (simp_all add: rows vec_mat_const)
  with assms(1) W show ?thesis by (simp add: nn_Linear_def)
qed

lemma dims_one_replicate [simp]: "0 < c \<Longrightarrow> dims [replicate c v] = Some (1, c)"
  by (simp add: dims_Some_iff)

lemma negative_nn_params:
  "W_hidden (LanguageIDModel_init negative_nn) = replicate 47 (replicate 250 (- 1))"
  "W_hidden2 (LanguageIDModel_init negative_nn) = replicate 250 (replicate 250 0)"
  using param_const [of "\<lambda>k. if k = 6 then - 1 else 0" 6 47 250]
        param_const [of "\<lambda>k. if k = 6 then - 1 else 0" 7 250 250]
  by (simp_all add: LanguageIDModel_init_def negative_nn_def Let_def)

lemma letter_a_dims: "dims letter_a = Some (1, 47)"
  by (simp add: letter_a_def dims_Some_iff)

lemma first_state:
  "nn_Linear letter_a (replicate 47 (replicate 250 (- 1))) = Inr [replicate 250 (- 1)]"
  using nn_Linear_const [OF letter_a_dims, of 250 "- 1"]
  by (simp add: letter_a_def sum_list_replicate)

lemma relu_negative: "nn_ReLU [replicate 250 (- 1)] = Inr [replicate 250 0]"
  by (simp add: nn_ReLU_def)

lemma rec_zero:
  "nn_Linear [replicate 250 0] (replicate 250 (replicate 250 0)) = Inr [replicate 250 0]"
  using nn_Linear_const [of "[replicate 250 0]" 1 250 250 0]
  by simp

lemma add_states: "nn_Add [replicate 250 (- 1)] [replicate 250 0] = Inr [replicate 250 (- 1)]"
  by (simp add: nn_Add_def zip_replicate)

lemma negative_nn_sel:
  "Linear negative_nn = nn_Linear" "ReLU negative_nn = nn_ReLU" "Add negative_nn = nn_Add"
  by (simp_all add: negative_nn_def)

text \<open>
  C1, as stated, fails. In a fresh model whose \<open>W_hidden\<close> is \<open>-1\<close> everywhere and whose
  \<open>W_hidden2\<close> is \<open>0\<close>, on the two-character word \<open>aa\<close> in a batch of one, the hidden state
  that \<^verbatim>\<open>run\<close> computes is \<open>-1\<close> in all 250 places, where the recurrence with \<open>ReLU\<close> on
  the second character gives \<open>0\<close>.
\<close>

theorem hidden_recurrence_counterexample:
  "LanguageIDModel_hidden negative_nn (LanguageIDModel_init negative_nn) [letter_a, letter_a]
     = Inr [replicate 250 (- 1)] \<and>
   LanguageIDModel_hidden_spec negative_nn (LanguageIDModel_init negative_nn) [letter_a, letter_a]
     = Inr [replicate 250 0]"
  by (simp add: LanguageIDModel_hidden_def LanguageIDModel_hidden_spec_def negative_nn_params
      negative_nn_sel first_state relu_negative rec_zero add_states)

section \<open>LanguageIDModel: the position of an example in its batch\<close>

text \<open>Every operation of the engine on matrices works row by row, so it commutes with a
  rearrangement of the rows.\<close>

lemma length_permute_rows [simp]: "length (permute_rows p X) = length p"
  by (simp add: permute_rows_def)

lemma permute_rows_map:
  "\<forall>i \<in> set p. i < length X \<Longrightarrow> map f (permute_rows p X) = permute_rows p (map f X)"
  by (simp add: permute_rows_def)

lemma permute_rows_map2:
  assumes "\<forall>i \<in> set p. i < length X" and "length Y = length X"
  shows "map2 f (permute_rows p X) (permute_rows p Y) = permute_rows p (map2 f X Y)"
proof (rule nth_equalityI)
  show "length (map2 f (permute_rows p X) (permute_rows p Y)) =
        length (permute_rows p (map2 f X Y))"
    by simp
next
  fix i
  assume "i < length (map2 f (permute_rows p X) (permute_rows p Y))"
  then have i: "i < length p" by simp
  with assms(1) have "p ! i < length X" by simp
  with i assms(2) show "map2 f (permute_rows p X) (permute_rows p Y) ! i =
                        permute_rows p (map2 f X Y) ! i"
    by (simp add: permute_rows_def)
qed

lemma dims_permute_rows:
  assumes "dims X = Some (n, c)" and "p \<noteq> []" and "\<forall>i \<in> set p. i < n"
  shows "dims (permute_rows p X) = Some (length p, c)"
  using assms by (auto simp: dims_Some_iff permute_rows_def)

lemma dims_length: "dims X = Some (n, c) \<Longrightarrow> length X = n"
  by (simp add: dims_Some_iff)

lemma nn_Linear_permute:
  assumes "nn_Linear X W = Inr Y" and "p \<noteq> []" and "\<forall>i \<in> set p. i < length X"
  shows "nn_Linear (permute_rows p X) W = Inr (permute_rows p Y) \<and> length Y = length X"
proof -
  from assms(1) obtain n k c where X: "dims X = Some (n, k)" and W: "dims W = Some (k, c)"
    and Y: "Y = map (\<lambda>row. vec_mat c row W) X"
    by (auto simp: nn_Linear_def split: option.splits if_splits)
  from X assms(3) have "\<forall>i \<in> set p. i < n" by (simp add: dims_length)
  from dims_permute_rows [OF X assms(2) this] W Y assms(3) show ?thesis
    by (simp add: nn_Linear_def permute_rows_map)
qed

lemma nn_AddBias_permute:
  assumes "nn_AddBias X b = Inr Y" and "p \<noteq> []" and "\<forall>i \<in> set p. i < length X"
  shows "nn_AddBias (permute_rows p X) b = Inr (permute_rows p Y) \<and> length Y = length X"
proof -
  from assms(1) obtain n c brow where X: "dims X = Some (n, c)" and b: "b = [brow]"
    and c: "length brow = c" and Y: "Y = map (\<lambda>row. map2 (+) row brow) X"
    by (auto simp: nn_AddBias_def split: option.splits list.splits if_splits)
  from X assms(3) have "\<forall>i \<in> set p. i < n" by (simp add: dims_length)
  from dims_permute_rows [OF X assms(2) this] b c Y assms(3) show ?thesis
    by (simp add: nn_AddBias_def permute_rows_map)
qed

lemma nn_ReLU_permute:
  assumes "nn_ReLU X = Inr Y" and "p \<noteq> []" and "\<forall>i \<in> set p. i < length X"
  shows "nn_ReLU (permute_rows p X) = Inr (permute_rows p Y) \<and> length Y = length X"
proof -
  from assms(1) obtain n c where X: "dims X = Some (n, c)" and Y: "Y = map (map (max 0)) X"
    by (auto simp: nn_ReLU_def split: if_splits)
  from X assms(3) have "\<forall>i \<in> set p. i < n" by (simp add: dims_length)
  from dims_permute_rows [OF X assms(2) this] Y assms(3) show ?thesis
    by (simp add: nn_ReLU_def permute_rows_map)
qed

lemma nn_Add_Inr:
  "nn_Add X Z = Inr Y \<longleftrightarrow>
     (\<exists>n c. dims X = Some (n, c) \<and> dims Z = Some (n, c) \<and> Y = map2 (map2 (+)) X Z)"
proof (cases "dims X")
  case None
  then show ?thesis by (simp add: nn_Add_def)
next
  case (Some d)
  then show ?thesis by (cases d) (auto simp: nn_Add_def)
qed

lemma nn_Add_permute:
  assumes "nn_Add X Z = Inr Y" and "p \<noteq> []" and "\<forall>i \<in> set p. i < length X"
  shows "nn_Add (permute_rows p X) (permute_rows p Z) = Inr (permute_rows p Y) \<and>
         length Y = length X"
proof -
  from assms(1) obtain n c where X: "dims X = Some (n, c)" and Z: "dims Z = Some (n, c)"
    and Y: "Y = map2 (map2 (+)) X Z"
    by (auto simp: nn_Add_Inr)
  from X Z have len: "length X = n" "length Z = n" by (simp_all add: dims_length)
  with assms(3) have p: "\<forall>i \<in> set p. i < n" by simp
  from dims_permute_rows [OF X assms(2) p] dims_permute_rows [OF Z assms(2) p]
    Y assms(3) len show ?thesis
    by (simp add: nn_Add_def permute_rows_map2)
qed


lemma run_loop_permute:
  assumes p: "p \<noteq> []" "\<forall>i \<in> set p. i < B"
  shows "LanguageIDModel_run_loop (nn_engine rnd sq sm gr) self xs (first, v) = Inr (f', v') \<Longrightarrow>
     \<forall>x \<in> set xs. length x = B \<Longrightarrow> (\<forall>h. v = Some h \<longrightarrow> length h = B) \<Longrightarrow>
     LanguageIDModel_run_loop (nn_engine rnd sq sm gr) self (map (permute_rows p) xs)
       (first, map_option (permute_rows p) v) = Inr (f', map_option (permute_rows p) v') \<and>
     (\<forall>h'. v' = Some h' \<longrightarrow> length h' = B)"
proof (induction xs arbitrary: first v)
  case Nil
  then show ?case by simp
next
  case (Cons x xs)
  let ?E = "nn_engine rnd sq sm gr"
  from Cons.prems(2) have x: "length x = B" and xs: "\<forall>x \<in> set xs. length x = B" by simp_all
  from p x have px: "\<forall>i \<in> set p. i < length x" by simp
  show ?case
  proof (cases "first = 1")
    case True
    with Cons.prems(1) obtain lin x' where
      lin: "nn_Linear x (W_hidden self) = Inr lin" and
      relu: "nn_ReLU lin = Inr x'" and
      rest: "LanguageIDModel_run_loop ?E self xs (0, Some x') = Inr (f', v')"
      by (auto simp: err_bind_eq_Inr)
    from nn_Linear_permute [OF lin p(1) px]
    have plin: "nn_Linear (permute_rows p x) (W_hidden self) = Inr (permute_rows p lin)"
      and llin: "length lin = B" using x by simp_all
    from p llin have "\<forall>i \<in> set p. i < length lin" by simp
    from nn_ReLU_permute [OF relu p(1) this]
    have prelu: "nn_ReLU (permute_rows p lin) = Inr (permute_rows p x')"
      and lx': "length x' = B" using llin by simp_all
    from Cons.IH [OF rest xs] lx'
    have "LanguageIDModel_run_loop ?E self (map (permute_rows p) xs)
            (0, Some (permute_rows p x')) = Inr (f', map_option (permute_rows p) v') \<and>
          (\<forall>h'. v' = Some h' \<longrightarrow> length h' = B)"
      by simp
    with True plin prelu show ?thesis by simp
  next
    case False
    with Cons.prems(1) obtain lin h rec x' where
      lin: "nn_Linear x (W_hidden self) = Inr lin" and
      v: "v = Some h" and
      rec: "nn_Linear h (W_hidden2 self) = Inr rec" and
      add: "nn_Add lin rec = Inr x'" and
      rest: "LanguageIDModel_run_loop ?E self xs (first, Some x') = Inr (f', v')"
      by (auto simp: err_bind_eq_Inr split: option.splits)
    from nn_Linear_permute [OF lin p(1) px]
    have plin: "nn_Linear (permute_rows p x) (W_hidden self) = Inr (permute_rows p lin)"
      and llin: "length lin = B" using x by simp_all
    from Cons.prems(3) v have lh: "length h = B" by simp
    with p have "\<forall>i \<in> set p. i < length h" by simp
    from nn_Linear_permute [OF rec p(1) this]
    have prec: "nn_Linear (permute_rows p h) (W_hidden2 self) = Inr (permute_rows p rec)"
      by simp
    from p llin have "\<forall>i \<in> set p. i < length lin" by simp
    from nn_Add_permute [OF add p(1) this]
    have padd: "nn_Add (permute_rows p lin) (permute_rows p rec) = Inr (permute_rows p x')"
      and lx': "length x' = B" using llin by simp_all
    from Cons.IH [OF rest xs] lx'
    have "LanguageIDModel_run_loop ?E self (map (permute_rows p) xs)
            (first, Some (permute_rows p x')) = Inr (f', map_option (permute_rows p) v') \<and>
          (\<forall>h'. v' = Some h' \<longrightarrow> length h' = B)"
      by simp
    with False v plin prec padd show ?thesis by simp
  qed
qed

lemma run_dense_permute:
  assumes d: "LanguageIDModel_run_dense (nn_engine rnd sq sm gr) self h = Inr S"
    and p: "p \<noteq> []" "\<forall>i \<in> set p. i < length h"
  shows "LanguageIDModel_run_dense (nn_engine rnd sq sm gr) self (permute_rows p h)
           = Inr (permute_rows p S) \<and> length S = length h"
proof -
  from d obtain dot pre ba dot2 pre2 ba2 dot3 where
    s1: "nn_Linear h (LanguageIDModel.w1 self) = Inr dot" and
    s2: "nn_AddBias dot (LanguageIDModel.b1 self) = Inr pre" and
    s3: "nn_ReLU pre = Inr ba" and
    s4: "nn_Linear ba (LanguageIDModel.w2 self) = Inr dot2" and
    s5: "nn_AddBias dot2 (LanguageIDModel.b2 self) = Inr pre2" and
    s6: "nn_ReLU pre2 = Inr ba2" and
    s7: "nn_Linear ba2 (w3 self) = Inr dot3" and
    s8: "nn_AddBias dot3 (b3 self) = Inr S"
    by (auto simp: LanguageIDModel_run_dense_def err_bind_eq_Inr)
  note t1 = nn_Linear_permute [OF s1 p]
  from t1 p(2) have q1: "\<forall>i \<in> set p. i < length dot" by simp
  note t2 = nn_AddBias_permute [OF s2 p(1) q1]
  from t2 q1 have q2: "\<forall>i \<in> set p. i < length pre" by simp
  note t3 = nn_ReLU_permute [OF s3 p(1) q2]
  from t3 q2 have q3: "\<forall>i \<in> set p. i < length ba" by simp
  note t4 = nn_Linear_permute [OF s4 p(1) q3]
  from t4 q3 have q4: "\<forall>i \<in> set p. i < length dot2" by simp
  note t5 = nn_AddBias_permute [OF s5 p(1) q4]
  from t5 q4 have q5: "\<forall>i \<in> set p. i < length pre2" by simp
  note t6 = nn_ReLU_permute [OF s6 p(1) q5]
  from t6 q5 have q6: "\<forall>i \<in> set p. i < length ba2" by simp
  note t7 = nn_Linear_permute [OF s7 p(1) q6]
  from t7 q6 have q7: "\<forall>i \<in> set p. i < length dot3" by simp
  note t8 = nn_AddBias_permute [OF s8 p(1) q7]
  from t1 t2 t3 t4 t5 t6 t7 t8 show ?thesis
    by (simp add: LanguageIDModel_run_dense_def)
qed

lemma nn_Linear_nonempty: "nn_Linear X W = Inr Y \<Longrightarrow> X \<noteq> []"
  by (auto simp: nn_Linear_def dims_def split: option.splits)

text \<open>
  C9. Let \<open>p\<close> be a permutation of the \<open>B\<close> batch positions, applied to every element of a
  non-empty sequence \<open>xs\<close> of batches of \<open>B\<close> rows. If \<^verbatim>\<open>LanguageIDModel.run\<close> returns the
  scores \<open>S\<close> on \<open>xs\<close>, then on the permuted batch it returns the rows of \<open>S\<close> permuted
  likewise: row \<open>i\<close> of the new result is row \<open>p ! i\<close> of \<open>S\<close>, the row of the example that
  now stands at position \<open>i\<close>.
\<close>

theorem run_batch_position:
  "distinct p \<and> set p = {0..<B} \<and> xs \<noteq> [] \<and> (\<forall>x \<in> set xs. length x = B) \<and>
   LanguageIDModel_run (nn_engine rnd sq sm gr) self xs = Inr S \<longrightarrow>
     LanguageIDModel_run (nn_engine rnd sq sm gr) self (map (permute_rows p) xs)
       = Inr (permute_rows p S) \<and>
     length S = B \<and> length (permute_rows p S) = B \<and>
     (\<forall>i < B. permute_rows p S ! i = S ! (p ! i))"
proof
  let ?E = "nn_engine rnd sq sm gr"
  assume a: "distinct p \<and> set p = {0..<B} \<and> xs \<noteq> [] \<and> (\<forall>x \<in> set xs. length x = B) \<and>
   LanguageIDModel_run ?E self xs = Inr S"
  then obtain st h where
    loop: "LanguageIDModel_run_loop ?E self xs (1, None) = Inr st" and
    h: "snd st = Some h" and
    dense: "LanguageIDModel_run_dense ?E self h = Inr S"
    by (auto simp: LanguageIDModel_run_def err_bind_eq_Inr split: option.splits)
  obtain f' v' where st: "st = (f', v')" by (cases st)
  from a obtain x0 rest where xs: "xs = x0 # rest" by (cases xs) auto
  from loop xs obtain lin where "nn_Linear x0 (W_hidden self) = Inr lin"
    by (auto simp: err_bind_eq_Inr)
  then have "x0 \<noteq> []" by (rule nn_Linear_nonempty)
  with a xs have B: "0 < B" by auto
  from a have len: "length p = B"
    using distinct_card [of p] by simp
  with B have p1: "p \<noteq> []" by auto
  from a have p2: "\<forall>i \<in> set p. i < B" by simp
  from a have rows: "\<forall>x \<in> set xs. length x = B" by simp
  from run_loop_permute [OF p1 p2 loop [unfolded st] rows] h st
  have ploop: "LanguageIDModel_run_loop ?E self (map (permute_rows p) xs) (1, None)
                 = Inr (f', Some (permute_rows p h))"
    and lh: "length h = B" by simp_all
  from p2 lh have "\<forall>i \<in> set p. i < length h" by simp
  from run_dense_permute [OF dense p1 this] lh
  have pdense: "LanguageIDModel_run_dense ?E self (permute_rows p h) = Inr (permute_rows p S)"
    and lS: "length S = B" by simp_all
  from ploop pdense have "LanguageIDModel_run ?E self (map (permute_rows p) xs)
       = Inr (permute_rows p S)"
    by (simp add: LanguageIDModel_run_def)
  with lS len show "LanguageIDModel_run ?E self (map (permute_rows p) xs)
       = Inr (permute_rows p S) \<and>
     length S = B \<and> length (permute_rows p S) = B \<and>
     (\<forall>i < B. permute_rows p S ! i = S ! (p ! i))"
    by (simp add: permute_rows_def)
qed


lemma two_words_run:
  "LanguageIDModel_run zero_nn small_words two_words = Inr [[3, - 2], [4, - 3]]"
  by code_simp

lemma swap_is_permutation: "distinct [1, 0 :: nat] \<and> set [1, 0] = {0..<2 :: nat}"
  by auto

theorem run_batch_position_witness:
  "distinct [1, 0 :: nat] \<and> set [1, 0] = {0..<2 :: nat} \<and> two_words \<noteq> [] \<and>
   map length two_words = [2, 2] \<and>
   LanguageIDModel_run zero_nn small_words two_words = Inr [[3, - 2], [4, - 3]] \<and>
   map (permute_rows [1, 0]) two_words = [[[0, 1], [1, 0]], [[0, 1], [0, 1]]] \<and>
   LanguageIDModel_run zero_nn small_words (map (permute_rows [1, 0]) two_words)
     = Inr [[4, - 3], [3, - 2]]"
proof -
  have rows: "two_words \<noteq> [] \<and> (\<forall>x \<in> set two_words. length x = 2)"
    by (simp add: two_words_def)
  have moved: "map (permute_rows [1, 0]) two_words = [[[0, 1], [1, 0]], [[0, 1], [0, 1]]]"
    by (simp add: two_words_def permute_rows_def)
  have out: "permute_rows [1, 0] [[3, - 2], [4, - 3]] = [[4, - 3], [3, - 2]]"
    by (simp add: permute_rows_def)
  from run_batch_position
         [where p = "[1, 0]" and B = 2 and xs = two_words and self = small_words
            and S = "[[3, - 2], [4, - 3]]"
            and rnd = "\<lambda>k i j. 0" and sq = "\<lambda>p y. Inr [[0]]" and sm = "\<lambda>p y. Inr [[0]]"
            and gr = "\<lambda>loss ps. Inr ps"]
       swap_is_permutation rows two_words_run
  have "LanguageIDModel_run zero_nn small_words (map (permute_rows [1, 0]) two_words)
          = Inr (permute_rows [1, 0] [[3, - 2], [4, - 3]])"
    unfolding zero_nn_def by blast
  moreover have "map length two_words = [2, 2]"
    by (simp add: two_words_def)
  ultimately show ?thesis
    using swap_is_permutation rows two_words_run moved out by simp
qed

end
